theory Spec2Isabelle
  imports
    Main
    "HOL-Library.AList"
    "HOL-Library.Char_ord"
    "HOL-Library.List_Lexorder"
    "HOL-Library.Product_Lexorder"
begin

section \<open>The key-value adapter of the feed server (class DbAdapter and mkKey)\<close>

text \<open>
  The development embeds the first edition of the adapter in the source file (the one
  with \<^verbatim>\<open>getFeedOwnerById\<close> and \<^verbatim>\<open>findRecordsByIds\<close>-based readers). The second
  edition in the same file is an earlier one: its \<^verbatim>\<open>getUserById\<close> and \<^verbatim>\<open>getUsersByIds\<close>
  return the stored records without the class check, it has no other typed reader, and
  it writes \<^verbatim>\<open>await* promises\<close> for \<^verbatim>\<open>await Promise.all(promises)\<close>; the other bodies
  are the same.

  Conventions of the embedding:
  \<^item> an \<^verbatim>\<open>async\<close> method becomes a function from the store to a result and the
    store after it; a rejected promise or a thrown \<^verbatim>\<open>Error\<close> is \<open>Inl\<close>;
  \<^item> commands of one method reach the store in the order the method issues them
    (one connection), also under \<^verbatim>\<open>Promise.all\<close>;
  \<^item> \<^verbatim>\<open>uuid.v4()\<close> is an argument \<open>uuid\<close> of the method that calls it;
  \<^item> identifiers, names and usernames are strings, as the data model has them;
    a value that may be of any JavaScript type is a \<open>jsval\<close>.
\<close>

subsection \<open>JavaScript values and errors\<close>

datatype jsval = JUndefined | JNull | JBool bool | JNum int | JStr string

text \<open>lodash's \<^verbatim>\<open>isString\<close> on the values above.\<close>

fun isString :: "jsval \<Rightarrow> bool" where
  "isString (JStr s) = True"
| "isString v = False"

text \<open>Truthiness, and \<^verbatim>\<open>a && b\<close>, which yields \<open>a\<close> itself when \<open>a\<close> is falsy.\<close>

fun js_truthy :: "jsval \<Rightarrow> bool" where
  "js_truthy JUndefined = False"
| "js_truthy JNull = False"
| "js_truthy (JBool b) = b"
| "js_truthy (JNum n) = (n \<noteq> 0)"
| "js_truthy (JStr s) = (s \<noteq> [])"

definition js_and :: "jsval \<Rightarrow> jsval \<Rightarrow> jsval" where
  "js_and a b = (if js_truthy a then b else a)"

text \<open>
  The decimal spelling of an integer, and the conversion of a string to a number that
  \<^verbatim>\<open>>=\<close> applies to a string operand. The conversion is modelled on the spellings of
  integers (an optional minus sign and decimal digits) and on the empty string, which
  converts to 0; any other spelling gives \<open>None\<close>, not a number.
\<close>

definition digit_char :: "nat \<Rightarrow> char" where
  "digit_char d = char_of (48 + d)"

function show_nat :: "nat \<Rightarrow> string" where
  "show_nat n =
     (if n < 10 then [digit_char n] else show_nat (n div 10) @ [digit_char (n mod 10)])"
  by pat_completeness auto
termination
  by (relation "measure id") auto

declare show_nat.simps [simp del]

definition show_int :: "int \<Rightarrow> string" where
  "show_int n = (if n < 0 then CHR ''-'' # show_nat (nat (- n)) else show_nat (nat n))"

definition digit_val :: "char \<Rightarrow> nat option" where
  "digit_val c =
     (if (48::nat) \<le> of_char c \<and> of_char c \<le> (57::nat) then Some (of_char c - 48) else None)"

fun read_digits :: "nat \<Rightarrow> string \<Rightarrow> nat option" where
  "read_digits acc [] = Some acc"
| "read_digits acc (c # cs) =
     (case digit_val c of None \<Rightarrow> None | Some d \<Rightarrow> read_digits (10 * acc + d) cs)"

definition string_to_number :: "string \<Rightarrow> int option" where
  "string_to_number s =
     (case s of
        [] \<Rightarrow> Some 0
      | c # cs \<Rightarrow>
          if c = CHR ''-''
          then (if cs = [] then None else map_option (\<lambda>n. - int n) (read_digits 0 cs))
          else map_option int (read_digits 0 s))"

text \<open>The number a value converts to (\<open>None\<close>: \<^verbatim>\<open>NaN\<close>), and the comparison \<^verbatim>\<open>v >= 0\<close>.\<close>

fun js_number :: "jsval \<Rightarrow> int option" where
  "js_number JUndefined = None"
| "js_number JNull = Some 0"
| "js_number (JBool b) = Some (if b then 1 else 0)"
| "js_number (JNum n) = Some n"
| "js_number (JStr s) = string_to_number s"

definition js_ge_0 :: "jsval \<Rightarrow> bool" where
  "js_ge_0 v = (case js_number v of None \<Rightarrow> False | Some n \<Rightarrow> 0 \<le> n)"

text \<open>The classes of \<^verbatim>\<open>../models\<close> that the adapter instantiates.\<close>

datatype model_class = Attachment | Comment | Group | Post | Stats | Timeline | User

text \<open>
  The errors a method can end with: the three \<^verbatim>\<open>new Error(...)\<close> of the source
  (\<open>KeysShouldBeStrings\<close>: 'keys should be strings'; \<open>AlreadyExists\<close>: "Already exists";
  \<open>Expected c d\<close>: `Expected c, got d`), the \<^verbatim>\<open>TypeError\<close> of reading a property of
  \<^verbatim>\<open>null\<close>, and an error reply of the store.
\<close>

datatype error =
    KeysShouldBeStrings
  | AlreadyExists
  | Expected model_class model_class
  | TypeError
  | ReplyError

subsection \<open>mkKey\<close>

text \<open>\<^verbatim>\<open>Array.prototype.join\<close> on an array of strings.\<close>

fun join :: "string \<Rightarrow> string list \<Rightarrow> string" where
  "join sep [] = []"
| "join sep [x] = x"
| "join sep (x # y # ys) = x @ sep @ join sep (y # ys)"

text \<open>
  The loop of \<^verbatim>\<open>mkKey\<close>: it walks the segments in order and throws at the first one
  that is not a string; when it ends, every segment is a string.
\<close>

fun check_keys :: "jsval list \<Rightarrow> error + string list" where
  "check_keys [] = Inr []"
| "check_keys (JStr s # keys) =
     (case check_keys keys of Inl e \<Rightarrow> Inl e | Inr ss \<Rightarrow> Inr (s # ss))"
| "check_keys (key # keys) = Inl KeysShouldBeStrings"

definition mkKey :: "jsval list \<Rightarrow> error + string" where
  "mkKey keys =
     (case check_keys keys of
        Inl e \<Rightarrow> Inl e
      | Inr ss \<Rightarrow> Inr (join '':'' ss))"

subsection \<open>The store\<close>

text \<open>
  Modelled from the spec: the key-value store behind \<^verbatim>\<open>this.database\<close> is an external
  collaborator; its commands are modelled from the primitive contract of the
  specification's section on external interfaces (existence, scalar index, record hash,
  sorted set, set algebra with an output key, batch). One key space holds every kind of
  value, as \<^verbatim>\<open>existsAsync\<close> and \<^verbatim>\<open>delAsync\<close> are applied to keys of every kind. A command
  applied to a key that holds another kind of value is refused with an error reply and
  changes nothing. Scores are integers (times in milliseconds and counters); the client
  delivers the score of a member as a string, its decimal spelling.
\<close>

type_synonym fields = "(string \<times> string) list"

type_synonym zset = "(string \<times> int) list"

datatype rvalue = RString string | RHash fields | RZSet zset

type_synonym database = "string \<Rightarrow> rvalue option"

definition existsAsync :: "database \<Rightarrow> string \<Rightarrow> nat" where
  "existsAsync db key = (if db key = None then 0 else 1)"

definition delAsync :: "database \<Rightarrow> string \<Rightarrow> (error + nat) \<times> database" where
  "delAsync db key = (Inr (existsAsync db key), db(key := None))"

definition getAsync :: "database \<Rightarrow> string \<Rightarrow> error + string option" where
  "getAsync db key =
     (case db key of
        None \<Rightarrow> Inr None
      | Some (RString v) \<Rightarrow> Inr (Some v)
      | Some other \<Rightarrow> Inl ReplyError)"

definition setAsync :: "database \<Rightarrow> string \<Rightarrow> string \<Rightarrow> (error + unit) \<times> database" where
  "setAsync db key v = (Inr (), db(key \<mapsto> RString v))"

text \<open>
  \<^verbatim>\<open>hgetallAsync\<close>: the fields of the record, \<open>None\<close> (JavaScript \<^verbatim>\<open>null\<close>) when there is
  no record. \<^verbatim>\<open>hmsetAsync\<close>: partial-field merge, creating the record when absent.
\<close>

definition hgetallAsync :: "database \<Rightarrow> string \<Rightarrow> error + fields option" where
  "hgetallAsync db key =
     (case db key of
        None \<Rightarrow> Inr None
      | Some (RHash h) \<Rightarrow> Inr (Some h)
      | Some other \<Rightarrow> Inl ReplyError)"

definition hmsetAsync :: "database \<Rightarrow> string \<Rightarrow> fields \<Rightarrow> (error + unit) \<times> database" where
  "hmsetAsync db key payload =
     (case db key of
        None \<Rightarrow> (Inr (), db(key \<mapsto> RHash (AList.merge [] payload)))
      | Some (RHash h) \<Rightarrow> (Inr (), db(key \<mapsto> RHash (AList.merge h payload)))
      | Some other \<Rightarrow> (Inl ReplyError, db))"

text \<open>Sorted sets: member to score; ranks ascend by score, then by member.\<close>

definition zscoreAsync :: "database \<Rightarrow> string \<Rightarrow> string \<Rightarrow> error + string option" where
  "zscoreAsync db key member =
     (case db key of
        None \<Rightarrow> Inr None
      | Some (RZSet z) \<Rightarrow> Inr (map_option show_int (map_of z member))
      | Some other \<Rightarrow> Inl ReplyError)"

definition zaddAsync :: "database \<Rightarrow> string \<Rightarrow> int \<Rightarrow> string \<Rightarrow> (error + unit) \<times> database" where
  "zaddAsync db key score member =
     (case db key of
        None \<Rightarrow> (Inr (), db(key \<mapsto> RZSet [(member, score)]))
      | Some (RZSet z) \<Rightarrow> (Inr (), db(key \<mapsto> RZSet (AList.update member score z)))
      | Some other \<Rightarrow> (Inl ReplyError, db))"

definition by_rank :: "zset \<Rightarrow> string list" where
  "by_rank z = map snd (sort (map (\<lambda>(member, score). (score, member)) (AList.clearjunk z)))"

text \<open>An inclusive range of ranks; a negative index counts from the end.\<close>

definition rank_range :: "'a list \<Rightarrow> int \<Rightarrow> int \<Rightarrow> 'a list" where
  "rank_range xs start stop =
     (let n = int (length xs);
          s = (if start < 0 then max 0 (n + start) else start);
          e = (if stop < 0 then n + stop else min stop (n - 1))
      in if e < s \<or> n \<le> s then [] else take (nat (e - s + 1)) (drop (nat s) xs))"

definition zrangeAsync :: "database \<Rightarrow> string \<Rightarrow> int \<Rightarrow> int \<Rightarrow> error + string list" where
  "zrangeAsync db key start stop =
     (case db key of
        None \<Rightarrow> Inr []
      | Some (RZSet z) \<Rightarrow> Inr (rank_range (by_rank z) start stop)
      | Some other \<Rightarrow> Inl ReplyError)"

text \<open>
  Set algebra with an output key: the sources are read, combined with the aggregate of
  the scores of a member found in several of them, and the result replaces whatever the
  destination held; an empty result leaves no key. The reply is the size of the result.
\<close>

datatype aggregate = AGGREGATE_SUM | AGGREGATE_MIN | AGGREGATE_MAX

fun aggr :: "aggregate \<Rightarrow> int \<Rightarrow> int \<Rightarrow> int" where
  "aggr AGGREGATE_SUM a b = a + b"
| "aggr AGGREGATE_MIN a b = min a b"
| "aggr AGGREGATE_MAX a b = max a b"

definition zsource :: "database \<Rightarrow> string \<Rightarrow> error + zset" where
  "zsource db key =
     (case db key of
        None \<Rightarrow> Inr []
      | Some (RZSet z) \<Rightarrow> Inr (AList.clearjunk z)
      | Some other \<Rightarrow> Inl ReplyError)"

fun zsources :: "database \<Rightarrow> string list \<Rightarrow> error + zset list" where
  "zsources db [] = Inr []"
| "zsources db (key # keys) =
     (case zsource db key of
        Inl e \<Rightarrow> Inl e
      | Inr z \<Rightarrow> (case zsources db keys of Inl e \<Rightarrow> Inl e | Inr zs \<Rightarrow> Inr (z # zs)))"

definition zunion :: "aggregate \<Rightarrow> zset \<Rightarrow> zset \<Rightarrow> zset" where
  "zunion agg a b =
     map (\<lambda>(m, s). (m, case map_of b m of None \<Rightarrow> s | Some t \<Rightarrow> aggr agg s t)) a
     @ filter (\<lambda>(m, t). map_of a m = None) b"

definition zinter :: "aggregate \<Rightarrow> zset \<Rightarrow> zset \<Rightarrow> zset" where
  "zinter agg a b =
     concat (map (\<lambda>(m, s). case map_of b m of None \<Rightarrow> [] | Some t \<Rightarrow> [(m, aggr agg s t)]) a)"

definition zstore :: "database \<Rightarrow> string \<Rightarrow> zset \<Rightarrow> (error + nat) \<times> database" where
  "zstore db dest z =
     (Inr (length z), if z = [] then db(dest := None) else db(dest \<mapsto> RZSet z))"

definition zunionstoreAsync ::
  "database \<Rightarrow> string \<Rightarrow> nat \<Rightarrow> string list \<Rightarrow> aggregate \<Rightarrow> (error + nat) \<times> database" where
  "zunionstoreAsync db dest numkeys keys agg =
     (if numkeys = 0 \<or> numkeys \<noteq> length keys then (Inl ReplyError, db)
      else (case zsources db keys of
              Inl e \<Rightarrow> (Inl e, db)
            | Inr zs \<Rightarrow> zstore db dest (foldl (zunion agg) (hd zs) (tl zs))))"

definition zinterstoreAsync ::
  "database \<Rightarrow> string \<Rightarrow> nat \<Rightarrow> string list \<Rightarrow> aggregate \<Rightarrow> (error + nat) \<times> database" where
  "zinterstoreAsync db dest numkeys keys agg =
     (if numkeys = 0 \<or> numkeys \<noteq> length keys then (Inl ReplyError, db)
      else (case zsources db keys of
              Inl e \<Rightarrow> (Inl e, db)
            | Inr zs \<Rightarrow> zstore db dest (foldl (zinter agg) (hd zs) (tl zs))))"

text \<open>
  A batch of commands: the replies in the order of the requests; the error reply of a
  command is the entry at its position. The adapter batches \<^verbatim>\<open>hgetall\<close> requests only.
\<close>

datatype request = HGETALL string

fun run_request :: "database \<Rightarrow> request \<Rightarrow> error + fields option" where
  "run_request db (HGETALL key) = hgetallAsync db key"

definition batchExecAsync :: "database \<Rightarrow> request list \<Rightarrow> (error + fields option) list" where
  "batchExecAsync db requests = map (run_request db) requests"

subsection \<open>Objects and promises\<close>

text \<open>
  Modelled from the spec: the classes of \<^verbatim>\<open>../models\<close> are not among the sources. An
  instance is recorded as its class and the attributes its constructor received. The
  account variants are disjoint, as the data model has them (Person and Group, one
  discriminator): \<^verbatim>\<open>x instanceof User\<close> holds exactly for an instance of \<open>User\<close>,
  \<^verbatim>\<open>x instanceof Group\<close> exactly for one of \<open>Group\<close>.
\<close>

datatype model_object = Instance model_class fields

fun class_of :: "model_object \<Rightarrow> model_class" where
  "class_of (Instance c attrs) = c"

definition instanceof :: "model_object \<Rightarrow> model_class \<Rightarrow> bool" where
  "instanceof x c = (class_of x = c)"

text \<open>\<^verbatim>\<open>new classDef({...attrs, ...{id}, ...params})\<close>; absent \<^verbatim>\<open>params\<close> are \<open>[]\<close>.\<close>

definition initObject :: "model_class \<Rightarrow> fields \<Rightarrow> string \<Rightarrow> fields \<Rightarrow> model_object" where
  "initObject classDef attrs ident params =
     Instance classDef (AList.merge (AList.merge attrs [(''id'', ident)]) params)"

text \<open>
  A method that is not \<^verbatim>\<open>async\<close> and returns the promise of a store command either
  throws while it builds the key (no command is issued) or hands back the promise.
  \<^verbatim>\<open>Promise.all\<close> is awaited after every command of the list has been issued; it rejects
  with the first rejection.
\<close>

datatype 'a call = Thrown error | Promise "error + 'a"

fun promise_all :: "(error + 'a) list \<Rightarrow> error + 'a list" where
  "promise_all [] = Inr []"
| "promise_all (Inl e # ps) = Inl e"
| "promise_all (Inr v # ps) = (case promise_all ps of Inl e \<Rightarrow> Inl e | Inr vs \<Rightarrow> Inr (v # vs))"

text \<open>\<^verbatim>\<open>String.prototype.toLowerCase\<close> on the ASCII letters.\<close>

definition lower_char :: "char \<Rightarrow> char" where
  "lower_char c =
     (if (65::nat) \<le> of_char c \<and> of_char c \<le> (90::nat) then char_of (of_char c + (32::nat)) else c)"

definition toLowerCase :: "string \<Rightarrow> string" where
  "toLowerCase s = map lower_char s"

subsection \<open>Base methods\<close>

text \<open>The methods \<^verbatim>\<open>_name\<close> of the source are named \<open>priv_name\<close>.\<close>

definition priv_existsRecord :: "database \<Rightarrow> string \<Rightarrow> nat" where
  "priv_existsRecord db key = existsAsync db key"

definition priv_getRecord :: "database \<Rightarrow> string \<Rightarrow> error + fields option" where
  "priv_getRecord db key = hgetallAsync db key"

definition priv_createRecord :: "database \<Rightarrow> string \<Rightarrow> fields \<Rightarrow> (error + unit) \<times> database" where
  "priv_createRecord db key payload = hmsetAsync db key payload"

definition priv_updateRecord :: "database \<Rightarrow> string \<Rightarrow> fields \<Rightarrow> (error + unit) \<times> database" where
  "priv_updateRecord db key payload = hmsetAsync db key payload"

definition priv_deleteRecord :: "database \<Rightarrow> string \<Rightarrow> (error + nat) \<times> database" where
  "priv_deleteRecord db key = delAsync db key"

definition priv_getIndexValue :: "database \<Rightarrow> string \<Rightarrow> error + string option" where
  "priv_getIndexValue db key = getAsync db key"

definition priv_setIndexValue :: "database \<Rightarrow> string \<Rightarrow> string \<Rightarrow> (error + unit) \<times> database" where
  "priv_setIndexValue db key v = setAsync db key v"

definition priv_getSortedSetElementScore ::
  "database \<Rightarrow> string \<Rightarrow> string \<Rightarrow> error + string option" where
  "priv_getSortedSetElementScore db key element = zscoreAsync db key element"

definition priv_addElementToSortedSet ::
  "database \<Rightarrow> string \<Rightarrow> int \<Rightarrow> string \<Rightarrow> (error + unit) \<times> database" where
  "priv_addElementToSortedSet db key score element = zaddAsync db key score element"

definition priv_normalizeUserEmail :: "string \<Rightarrow> string" where
  "priv_normalizeUserEmail email = toLowerCase email"

subsection \<open>Records by kind and id\<close>

definition findRecordById :: "database \<Rightarrow> string \<Rightarrow> string \<Rightarrow> error + fields option" where
  "findRecordById db modelName modelId =
     (case mkKey [JStr modelName, JStr modelId] of
        Inl e \<Rightarrow> Inl e
      | Inr key \<Rightarrow> priv_getRecord db key)"

text \<open>\<^verbatim>\<open>modelIds.map(id => mkKey([modelName, id]))\<close>: the first throw ends the map.\<close>

fun record_keys :: "string \<Rightarrow> string list \<Rightarrow> error + string list" where
  "record_keys modelName [] = Inr []"
| "record_keys modelName (ident # modelIds) =
     (case mkKey [JStr modelName, JStr ident] of
        Inl e \<Rightarrow> Inl e
      | Inr key \<Rightarrow>
          (case record_keys modelName modelIds of
             Inl e \<Rightarrow> Inl e
           | Inr keys \<Rightarrow> Inr (key # keys)))"

text \<open>
  The replies of the batch: \<open>Inr None\<close> is \<^verbatim>\<open>null\<close>, \<open>Inr (Some h)\<close> the record, \<open>Inl e\<close>
  the error object that stands at the position of a refused command.
\<close>

definition findRecordsByIds ::
  "database \<Rightarrow> string \<Rightarrow> string list \<Rightarrow> error + (error + fields option) list" where
  "findRecordsByIds db modelName modelIds =
     (case record_keys modelName modelIds of
        Inl e \<Rightarrow> Inl e
      | Inr keys \<Rightarrow>
          (let requests = map HGETALL keys
           in Inr (batchExecAsync db requests)))"

subsection \<open>Users\<close>

text \<open>
  The payload of \<^verbatim>\<open>createUser\<close>: an account carries a textual username; the email is
  optional (\<open>None\<close>: the property is undefined). The object written to the store has
  these properties and the other attributes.
\<close>

record user_payload =
  user_username :: string
  user_email :: "string option"
  user_attrs :: fields

definition user_object :: "user_payload \<Rightarrow> fields" where
  "user_object payload =
     (''username'', user_username payload)
     # (case user_email payload of None \<Rightarrow> [] | Some e \<Rightarrow> [(''email'', e)])
     @ user_attrs payload"

definition existsUsername :: "database \<Rightarrow> string \<Rightarrow> error + nat" where
  "existsUsername db username =
     (case mkKey [JStr ''username'', JStr username, JStr ''uid''] of
        Inl e \<Rightarrow> Inl e
      | Inr key \<Rightarrow> Inr (priv_existsRecord db key))"

definition getUserIdByUsername :: "database \<Rightarrow> string \<Rightarrow> error + string option" where
  "getUserIdByUsername db username =
     (case mkKey [JStr ''username'', JStr username, JStr ''uid''] of
        Inl e \<Rightarrow> Inl e
      | Inr key \<Rightarrow> priv_getIndexValue db key)"

definition priv_createUserUsernameIndex ::
  "database \<Rightarrow> string \<Rightarrow> string \<Rightarrow> unit call \<times> database" where
  "priv_createUserUsernameIndex db userId username =
     (case mkKey [JStr ''username'', JStr username, JStr ''uid''] of
        Inl e \<Rightarrow> (Thrown e, db)
      | Inr key \<Rightarrow> (case priv_setIndexValue db key userId of (p, db') \<Rightarrow> (Promise p, db')))"

definition getUserIdByEmail :: "database \<Rightarrow> string \<Rightarrow> error + string option" where
  "getUserIdByEmail db email =
     (case mkKey [JStr ''email'', JStr (priv_normalizeUserEmail email), JStr ''uid''] of
        Inl e \<Rightarrow> Inl e
      | Inr key \<Rightarrow> priv_getIndexValue db key)"

definition createUserEmailIndex ::
  "database \<Rightarrow> string \<Rightarrow> string \<Rightarrow> unit call \<times> database" where
  "createUserEmailIndex db userId email =
     (case mkKey [JStr ''email'', JStr (priv_normalizeUserEmail email), JStr ''uid''] of
        Inl e \<Rightarrow> (Thrown e, db)
      | Inr key \<Rightarrow> (case priv_setIndexValue db key userId of (p, db') \<Rightarrow> (Promise p, db')))"

text \<open>
  \<^verbatim>\<open>createUser\<close>. The test \<^verbatim>\<open>email && email.length > 0\<close> holds for a defined, non-empty
  email.
\<close>

definition createUser :: "database \<Rightarrow> string \<Rightarrow> user_payload \<Rightarrow> (error + string) \<times> database" where
  "createUser db uuid payload =
     (let userId = uuid;
          username = user_username payload;
          email = user_email payload
      in case mkKey [JStr ''user'', JStr userId] of
           Inl e \<Rightarrow> (Inl e, db)
         | Inr userKey \<Rightarrow>
             (let exists = priv_existsRecord db userKey
              in if exists \<noteq> 0 then (Inl AlreadyExists, db)
                 else
                   (case priv_createUserUsernameIndex db userId username of
                      (Thrown e, db1) \<Rightarrow> (Inl e, db1)
                    | (Promise p1, db1) \<Rightarrow>
                        (case priv_createRecord db1 userKey (user_object payload) of
                           (p2, db2) \<Rightarrow>
                             (case email of
                                None \<Rightarrow>
                                  (case promise_all [p1, p2] of
                                     Inl e \<Rightarrow> (Inl e, db2)
                                   | Inr done \<Rightarrow> (Inr userId, db2))
                              | Some address \<Rightarrow>
                                  if address \<noteq> [] \<and> 0 < length address
                                  then
                                    (case createUserEmailIndex db2 userId address of
                                       (Thrown e, db3) \<Rightarrow> (Inl e, db3)
                                     | (Promise p3, db3) \<Rightarrow>
                                         (case promise_all [p1, p2, p3] of
                                            Inl e \<Rightarrow> (Inl e, db3)
                                          | Inr done \<Rightarrow> (Inr userId, db3)))
                                  else
                                    (case promise_all [p1, p2] of
                                       Inl e \<Rightarrow> (Inl e, db2)
                                     | Inr done \<Rightarrow> (Inr userId, db2)))))))"

definition getFeedOwnerById :: "database \<Rightarrow> string \<Rightarrow> error + model_object option" where
  "getFeedOwnerById db ident =
     (case mkKey [JStr ''user'', JStr ident] of
        Inl e \<Rightarrow> Inl e
      | Inr key \<Rightarrow>
          (case priv_getRecord db key of
             Inl e \<Rightarrow> Inl e
           | Inr None \<Rightarrow> Inr None
           | Inr (Some attrs) \<Rightarrow>
               if map_of attrs ''type'' = Some ''group''
               then Inr (Some (initObject Group attrs ident []))
               else Inr (Some (initObject User attrs ident []))))"

definition getUserById :: "database \<Rightarrow> string \<Rightarrow> error + model_object option" where
  "getUserById db ident =
     (case getFeedOwnerById db ident of
        Inl e \<Rightarrow> Inl e
      | Inr None \<Rightarrow> Inr None
      | Inr (Some user) \<Rightarrow>
          if \<not> instanceof user User then Inl (Expected User (class_of user))
          else Inr (Some user))"

definition getGroupById :: "database \<Rightarrow> string \<Rightarrow> error + model_object option" where
  "getGroupById db ident =
     (case getFeedOwnerById db ident of
        Inl e \<Rightarrow> Inl e
      | Inr None \<Rightarrow> Inr None
      | Inr (Some user) \<Rightarrow>
          if \<not> instanceof user Group then Inl (Expected Group (class_of user))
          else Inr (Some user))"

text \<open>
  The callback of \<^verbatim>\<open>responses.map\<close> in \<^verbatim>\<open>getFeedOwnersByIds\<close>: reading \<^verbatim>\<open>attrs.type\<close>
  of \<^verbatim>\<open>null\<close> is a \<^verbatim>\<open>TypeError\<close>; an error object has no \<^verbatim>\<open>type\<close> and is spread like
  any object (its enumerable properties are the reply's code).
\<close>

definition error_properties :: "error \<Rightarrow> fields" where
  "error_properties e = [(''code'', ''WRONGTYPE'')]"

fun feed_owner_of :: "error + fields option \<Rightarrow> string \<Rightarrow> error + model_object" where
  "feed_owner_of (Inr None) ident = Inl TypeError"
| "feed_owner_of (Inr (Some attrs)) ident =
     (if map_of attrs ''type'' = Some ''group''
      then Inr (initObject Group attrs ident [])
      else Inr (initObject User attrs ident []))"
| "feed_owner_of (Inl e) ident = Inr (initObject User (error_properties e) ident [])"

text \<open>The map itself: entry \<open>i\<close> is paired with \<^verbatim>\<open>ids[i]\<close>; the first throw ends it.\<close>

fun feed_owners :: "(error + fields option) list \<Rightarrow> string list \<Rightarrow> error + model_object list" where
  "feed_owners (attrs # responses) (ident # ids) =
     (case feed_owner_of attrs ident of
        Inl e \<Rightarrow> Inl e
      | Inr object \<Rightarrow>
          (case feed_owners responses ids of
             Inl e \<Rightarrow> Inl e
           | Inr objects \<Rightarrow> Inr (object # objects)))"
| "feed_owners responses ids = Inr []"

definition getFeedOwnersByIds :: "database \<Rightarrow> string list \<Rightarrow> error + model_object list" where
  "getFeedOwnersByIds db ids =
     (case findRecordsByIds db ''user'' ids of
        Inl e \<Rightarrow> Inl e
      | Inr responses \<Rightarrow> feed_owners responses ids)"

text \<open>\<^verbatim>\<open>each(users, ...)\<close> of \<^verbatim>\<open>getUsersByIds\<close>: the first instance of another class throws.\<close>

fun expect_users :: "model_object list \<Rightarrow> error + unit" where
  "expect_users [] = Inr ()"
| "expect_users (user # users) =
     (if \<not> instanceof user User then Inl (Expected User (class_of user))
      else expect_users users)"

definition getUsersByIds :: "database \<Rightarrow> string list \<Rightarrow> error + model_object list" where
  "getUsersByIds db userIds =
     (case getFeedOwnersByIds db userIds of
        Inl e \<Rightarrow> Inl e
      | Inr users \<Rightarrow>
          (case expect_users users of
             Inl e \<Rightarrow> Inl e
           | Inr done \<Rightarrow> Inr users))"

definition getFeedOwnerByUsername :: "database \<Rightarrow> string \<Rightarrow> error + model_object option" where
  "getFeedOwnerByUsername db username =
     (case getUserIdByUsername db (toLowerCase username) of
        Inl e \<Rightarrow> Inl e
      | Inr None \<Rightarrow> Inr None
      | Inr (Some identifier) \<Rightarrow> getFeedOwnerById db identifier)"

subsection \<open>Posts, comments, attachments\<close>

definition createPost :: "database \<Rightarrow> string \<Rightarrow> fields \<Rightarrow> (error + string) \<times> database" where
  "createPost db uuid payload =
     (let postId = uuid
      in case mkKey [JStr ''post'', JStr postId] of
           Inl e \<Rightarrow> (Inl e, db)
         | Inr key \<Rightarrow>
             (let exists = priv_existsRecord db key
              in if exists \<noteq> 0 then (Inl AlreadyExists, db)
                 else
                   (case priv_createRecord db key payload of
                      (Inl e, db') \<Rightarrow> (Inl e, db')
                    | (Inr done, db') \<Rightarrow> (Inr postId, db'))))"

definition createComment :: "database \<Rightarrow> string \<Rightarrow> fields \<Rightarrow> (error + string) \<times> database" where
  "createComment db uuid payload =
     (let commentId = uuid
      in case mkKey [JStr ''comment'', JStr commentId] of
           Inl e \<Rightarrow> (Inl e, db)
         | Inr key \<Rightarrow>
             (let exists = priv_existsRecord db key
              in if exists \<noteq> 0 then (Inl AlreadyExists, db)
                 else
                   (case priv_createRecord db key payload of
                      (Inl e, db') \<Rightarrow> (Inl e, db')
                    | (Inr done, db') \<Rightarrow> (Inr commentId, db'))))"

definition createAttachment :: "database \<Rightarrow> string \<Rightarrow> fields \<Rightarrow> (error + string) \<times> database" where
  "createAttachment db uuid payload =
     (let attachmentId = uuid
      in case mkKey [JStr ''attachment'', JStr attachmentId] of
           Inl e \<Rightarrow> (Inl e, db)
         | Inr attachmentKey \<Rightarrow>
             (let exists = priv_existsRecord db attachmentKey
              in if exists \<noteq> 0 then (Inl AlreadyExists, db)
                 else
                   (case priv_createRecord db attachmentKey payload of
                      (Inl e, db') \<Rightarrow> (Inl e, db')
                    | (Inr done, db') \<Rightarrow> (Inr attachmentId, db'))))"

subsection \<open>Presence tests on sorted sets\<close>

text \<open>
  The reply of \<^verbatim>\<open>zscoreAsync\<close> as a JavaScript value: the string that spells the
  score, or \<^verbatim>\<open>null\<close>.
\<close>

definition score_value :: "string option \<Rightarrow> jsval" where
  "score_value score = (case score of None \<Rightarrow> JNull | Some text \<Rightarrow> JStr text)"

definition hasUserLikedPost :: "database \<Rightarrow> string \<Rightarrow> string \<Rightarrow> error + jsval" where
  "hasUserLikedPost db userId postId =
     (case mkKey [JStr ''post'', JStr postId, JStr ''likes''] of
        Inl e \<Rightarrow> Inl e
      | Inr key \<Rightarrow>
          (case priv_getSortedSetElementScore db key userId of
             Inl e \<Rightarrow> Inl e
           | Inr score \<Rightarrow> Inr (js_and (score_value score) (JBool (js_ge_0 (score_value score))))))"

definition isSubscriptionRequestPresent :: "database \<Rightarrow> string \<Rightarrow> string \<Rightarrow> error + jsval" where
  "isSubscriptionRequestPresent db currentUserId followedUserId =
     (case mkKey [JStr ''user'', JStr followedUserId, JStr ''requests''] of
        Inl e \<Rightarrow> Inl e
      | Inr key \<Rightarrow>
          (case priv_getSortedSetElementScore db key currentUserId of
             Inl e \<Rightarrow> Inl e
           | Inr score \<Rightarrow> Inr (js_and (score_value score) (JBool (js_ge_0 (score_value score))))))"

definition isPostPresentInTimeline :: "database \<Rightarrow> string \<Rightarrow> string \<Rightarrow> error + jsval" where
  "isPostPresentInTimeline db timelineId postId =
     (case mkKey [JStr ''timeline'', JStr timelineId, JStr ''posts''] of
        Inl e \<Rightarrow> Inl e
      | Inr key \<Rightarrow>
          (case priv_getSortedSetElementScore db key postId of
             Inl e \<Rightarrow> Inl e
           | Inr score \<Rightarrow> Inr (js_and (score_value score) (JBool (js_ge_0 (score_value score))))))"

subsection \<open>Timelines\<close>

text \<open>
  The payload of a timeline carries its name and the id of its owner, both textual.
\<close>

record timeline_payload =
  timeline_name :: string
  timeline_userId :: string
  timeline_attrs :: fields

definition timeline_object :: "timeline_payload \<Rightarrow> fields" where
  "timeline_object payload =
     (''name'', timeline_name payload) # (''userId'', timeline_userId payload)
     # timeline_attrs payload"

definition getUserDiscussionsTimelineId :: "string \<Rightarrow> string" where
  "getUserDiscussionsTimelineId userId = userId"

definition priv_createUserTimeline ::
  "database \<Rightarrow> string \<Rightarrow> string \<Rightarrow> string \<Rightarrow> unit call \<times> database" where
  "priv_createUserTimeline db userId timelineName timelineId =
     (let payload = [(timelineName, timelineId)]
      in case mkKey [JStr ''user'', JStr userId, JStr ''timelines''] of
           Inl e \<Rightarrow> (Thrown e, db)
         | Inr key \<Rightarrow> (case priv_createRecord db key payload of (p, db') \<Rightarrow> (Promise p, db')))"

definition priv_createTimeline ::
  "database \<Rightarrow> string \<Rightarrow> string \<Rightarrow> timeline_payload \<Rightarrow> (error + string) \<times> database" where
  "priv_createTimeline db timelineId userId payload =
     (case mkKey [JStr ''timeline'', JStr timelineId] of
        Inl e \<Rightarrow> (Inl e, db)
      | Inr timelineKey \<Rightarrow>
          (let name = timeline_name payload;
               exists = priv_existsRecord db timelineKey
           in if exists \<noteq> 0 then (Inl AlreadyExists, db)
              else
                (case priv_createUserTimeline db userId name timelineId of
                   (Thrown e, db1) \<Rightarrow> (Inl e, db1)
                 | (Promise p1, db1) \<Rightarrow>
                     (case priv_createRecord db1 timelineKey (timeline_object payload) of
                        (p2, db2) \<Rightarrow>
                          (case promise_all [p1, p2] of
                             Inl e \<Rightarrow> (Inl e, db2)
                           | Inr done \<Rightarrow> (Inr timelineId, db2))))))"

definition createTimeline ::
  "database \<Rightarrow> string \<Rightarrow> timeline_payload \<Rightarrow> (error + string) \<times> database" where
  "createTimeline db uuid payload =
     (let timelineId = uuid;
          userId = timeline_userId payload
      in priv_createTimeline db timelineId userId payload)"

definition createUserDiscussionsTimeline ::
  "database \<Rightarrow> string \<Rightarrow> timeline_payload \<Rightarrow> (error + string) \<times> database" where
  "createUserDiscussionsTimeline db userId payload =
     (let timelineId = getUserDiscussionsTimelineId userId
      in priv_createTimeline db timelineId userId payload)"

definition addPostToTimeline ::
  "database \<Rightarrow> string \<Rightarrow> int \<Rightarrow> string \<Rightarrow> (error + unit) \<times> database" where
  "addPostToTimeline db timelineId time postId =
     (case mkKey [JStr ''timeline'', JStr timelineId, JStr ''posts''] of
        Inl e \<Rightarrow> (Inl e, db)
      | Inr key \<Rightarrow> priv_addElementToSortedSet db key time postId)"

subsection \<open>Merge and intersection of timelines\<close>

definition createMergedPostsTimeline ::
  "database \<Rightarrow> string \<Rightarrow> string \<Rightarrow> string \<Rightarrow> (error + nat) \<times> database" where
  "createMergedPostsTimeline db destinationTimelineId sourceTimelineId1 sourceTimelineId2 =
     (case mkKey [JStr ''timeline'', JStr destinationTimelineId, JStr ''posts''] of
        Inl e \<Rightarrow> (Inl e, db)
      | Inr destKey \<Rightarrow>
          (case mkKey [JStr ''timeline'', JStr sourceTimelineId1, JStr ''posts''] of
             Inl e \<Rightarrow> (Inl e, db)
           | Inr key1 \<Rightarrow>
               (case mkKey [JStr ''timeline'', JStr sourceTimelineId2, JStr ''posts''] of
                  Inl e \<Rightarrow> (Inl e, db)
                | Inr key2 \<Rightarrow> zunionstoreAsync db destKey 2 [key1, key2] AGGREGATE_MAX)))"

definition priv_getPostsTimelinesIntersection ::
  "database \<Rightarrow> string \<Rightarrow> string \<Rightarrow> string \<Rightarrow> (error + nat) \<times> database" where
  "priv_getPostsTimelinesIntersection db destKey sourceTimelineId1 sourceTimelineId2 =
     (case mkKey [JStr ''timeline'', JStr sourceTimelineId1, JStr ''posts''] of
        Inl e \<Rightarrow> (Inl e, db)
      | Inr key1 \<Rightarrow>
          (case mkKey [JStr ''timeline'', JStr sourceTimelineId2, JStr ''posts''] of
             Inl e \<Rightarrow> (Inl e, db)
           | Inr key2 \<Rightarrow> zinterstoreAsync db destKey 2 [key1, key2] AGGREGATE_MAX))"

definition priv_getTimelinesIntersectionPosts :: "database \<Rightarrow> string \<Rightarrow> error + string list" where
  "priv_getTimelinesIntersectionPosts db key = zrangeAsync db key 0 (- 1)"

definition getTimelinesIntersectionPostIds ::
  "database \<Rightarrow> string \<Rightarrow> string \<Rightarrow> string \<Rightarrow> (error + string list) \<times> database" where
  "getTimelinesIntersectionPostIds db uuid timelineId1 timelineId2 =
     (case mkKey [JStr ''timeline'', JStr timelineId1, JStr ''random'', JStr uuid] of
        Inl e \<Rightarrow> (Inl e, db)
      | Inr randomKey \<Rightarrow>
          (case priv_getPostsTimelinesIntersection db randomKey timelineId2 timelineId1 of
             (Inl e, db1) \<Rightarrow> (Inl e, db1)
           | (Inr stored, db1) \<Rightarrow>
               (case priv_getTimelinesIntersectionPosts db1 randomKey of
                  Inl e \<Rightarrow> (Inl e, db1)
                | Inr postIds \<Rightarrow>
                    (case priv_deleteRecord db1 randomKey of
                       (Inl e, db2) \<Rightarrow> (Inl e, db2)
                     | (Inr deleted, db2) \<Rightarrow> (Inr postIds, db2)))))"

subsection \<open>Vocabulary of the properties\<close>

text \<open>
  What a key holds when it is read as a record or as a sorted set: nothing stored reads
  as the empty one; a value of another kind has no reading.
\<close>

definition hash_at :: "database \<Rightarrow> string \<Rightarrow> fields option" where
  "hash_at db key =
     (case db key of None \<Rightarrow> Some [] | Some (RHash h) \<Rightarrow> Some h | Some other \<Rightarrow> None)"

definition zset_at :: "database \<Rightarrow> string \<Rightarrow> zset option" where
  "zset_at db key =
     (case db key of None \<Rightarrow> Some [] | Some (RZSet z) \<Rightarrow> Some z | Some other \<Rightarrow> None)"

text \<open>The post-membership registry of a timeline (the key of \<^verbatim>\<open>addPostToTimeline\<close>).\<close>

definition registry :: "database \<Rightarrow> string \<Rightarrow> zset option" where
  "registry db timelineId = zset_at db (''timeline:'' @ timelineId @ '':posts'')"

text \<open>The score of a post of both registries after aggregation by the maximum.\<close>

definition common_score :: "zset \<Rightarrow> zset \<Rightarrow> string \<Rightarrow> int" where
  "common_score a b m =
     (case (map_of a m, map_of b m) of (Some s, Some t) \<Rightarrow> max s t | other \<Rightarrow> 0)"

text \<open>
  What a caller reads from the result of a presence test: present when the promise
  resolves with a truthy value, not present when it resolves with a falsy one.
\<close>

definition reports_present :: "error + jsval \<Rightarrow> bool" where
  "reports_present r = (case r of Inl e \<Rightarrow> False | Inr v \<Rightarrow> js_truthy v)"

definition reports_absent :: "error + jsval \<Rightarrow> bool" where
  "reports_absent r = (case r of Inl e \<Rightarrow> False | Inr v \<Rightarrow> \<not> js_truthy v)"

section \<open>Properties\<close>

subsection \<open>Key composition\<close>

lemma check_keys_strings: "check_keys (map JStr ss) = Inr ss"
  by (induction ss) simp_all

lemma check_keys_Inr: "check_keys keys = Inr ss \<Longrightarrow> keys = map JStr ss"
proof (induction keys arbitrary: ss)
  case Nil
  then show ?case by simp
next
  case (Cons k keys)
  then show ?case
    by (cases k) (auto split: sum.splits)
qed

lemma check_keys_Inl:
  "check_keys keys = Inl e \<Longrightarrow> e = KeysShouldBeStrings \<and> (\<exists>k \<in> set keys. \<not> isString k)"
proof (induction keys)
  case Nil
  then show ?case by simp
next
  case (Cons k keys)
  then show ?case
    by (cases k) (auto split: sum.splits)
qed

lemma mkKey_strings: "mkKey (map JStr ss) = Inr (join '':'' ss)"
  by (simp add: mkKey_def check_keys_strings)

lemma join_concat:
  "ss \<noteq> [] \<Longrightarrow> join sep ss = concat (map (\<lambda>s. s @ sep) (butlast ss)) @ last ss"
  by (induction sep ss rule: join.induct) simp_all

text \<open>
  C8. \<^verbatim>\<open>mkKey\<close> is a function of its segments alone (it takes no store). When every
  segment is a string, it returns them joined by ':' (each segment but the last followed
  by the delimiter); it throws 'keys should be strings' if and only if some segment is
  not a string, and it throws nothing else.
\<close>

theorem mkKey_joins_or_rejects:
  "(mkKey (map JStr ss) = Inr (join '':'' ss))
   \<and> (ss \<noteq> [] \<longrightarrow> join '':'' ss = concat (map (\<lambda>s. s @ '':'') (butlast ss)) @ last ss)
   \<and> ((\<forall>k \<in> set keys. isString k) \<longrightarrow> (\<exists>ts. keys = map JStr ts \<and> mkKey keys = Inr (join '':'' ts)))
   \<and> ((\<exists>k \<in> set keys. \<not> isString k) \<longleftrightarrow> (\<exists>e. mkKey keys = Inl e))
   \<and> (mkKey keys = Inl e \<longrightarrow> e = KeysShouldBeStrings)"
proof -
  have ok: "(\<forall>k \<in> set keys. isString k) \<Longrightarrow> \<exists>ts. keys = map JStr ts"
  proof (induction keys)
    case Nil
    then show ?case by simp
  next
    case (Cons k keys)
    then obtain ts where "keys = map JStr ts" by auto
    moreover from Cons.prems obtain s where "k = JStr s" by (cases k) auto
    ultimately have "k # keys = map JStr (s # ts)" by simp
    then show ?case by (rule exI)
  qed
  have a: "(\<forall>k \<in> set keys. isString k) \<longrightarrow> (\<exists>ts. keys = map JStr ts \<and> mkKey keys = Inr (join '':'' ts))"
    using ok mkKey_strings by blast
  have b: "(\<exists>k \<in> set keys. \<not> isString k) \<longleftrightarrow> (\<exists>e. mkKey keys = Inl e)"
  proof
    assume "\<exists>k \<in> set keys. \<not> isString k"
    then have "\<not> (\<exists>ts. keys = map JStr ts)" by auto
    then have "\<not> (\<exists>ts. check_keys keys = Inr ts)" using check_keys_Inr by blast
    then obtain e where "check_keys keys = Inl e" by (cases "check_keys keys") auto
    then show "\<exists>e. mkKey keys = Inl e" by (simp add: mkKey_def)
  next
    assume "\<exists>e. mkKey keys = Inl e"
    then obtain e where "check_keys keys = Inl e"
      by (auto simp: mkKey_def split: sum.splits)
    then show "\<exists>k \<in> set keys. \<not> isString k" using check_keys_Inl by blast
  qed
  have c: "mkKey keys = Inl e \<longrightarrow> e = KeysShouldBeStrings"
    using check_keys_Inl by (auto simp: mkKey_def split: sum.splits)
  show ?thesis
    using a b c mkKey_strings join_concat by blast
qed

theorem mkKey_joins_or_rejects_witness:
  "mkKey [JStr ''user'', JStr ''u1'', JStr ''timelines''] = Inr ''user:u1:timelines''
   \<and> mkKey [JStr ''user'', JNum 7] = Inl KeysShouldBeStrings"
proof -
  have "\<exists>e. mkKey [JStr ''user'', JNum 7] = Inl e"
    using mkKey_joins_or_rejects [of "[]" "[JStr ''user'', JNum 7]" KeysShouldBeStrings]
    by simp
  then have "mkKey [JStr ''user'', JNum 7] = Inl KeysShouldBeStrings"
    using mkKey_joins_or_rejects [of "[]" "[JStr ''user'', JNum 7]"] by blast
  moreover have "mkKey [JStr ''user'', JStr ''u1'', JStr ''timelines''] = Inr ''user:u1:timelines''"
    using mkKey_joins_or_rejects [of "[''user'', ''u1'', ''timelines'']" "[]" KeysShouldBeStrings]
    by simp
  ultimately show ?thesis by simp
qed

subsection \<open>Keys of textual segments\<close>

lemma mkKey2: "mkKey [JStr a, JStr b] = Inr (a @ '':'' @ b)"
  by (simp add: mkKey_def)

lemma mkKey3: "mkKey [JStr a, JStr b, JStr c] = Inr (a @ '':'' @ b @ '':'' @ c)"
  by (simp add: mkKey_def)

lemma mkKey4:
  "mkKey [JStr a, JStr b, JStr c, JStr d] = Inr (a @ '':'' @ b @ '':'' @ c @ '':'' @ d)"
  by (simp add: mkKey_def)

lemma merge_single: "AList.merge h [(k, v)] = AList.update k v h"
  by (simp add: AList.merge_def)

subsection \<open>Batch reads\<close>

lemma record_keys_eq: "record_keys modelName ids = Inr (map (\<lambda>i. modelName @ '':'' @ i) ids)"
  by (induction ids) (simp_all add: mkKey2)

lemma findRecordsByIds_eq:
  "findRecordsByIds db modelName ids =
     Inr (map (\<lambda>i. hgetallAsync db (modelName @ '':'' @ i)) ids)"
  by (simp add: findRecordsByIds_def record_keys_eq batchExecAsync_def comp_def)

text \<open>
  C4. For every kind and every list of ids, \<^verbatim>\<open>findRecordsByIds\<close> resolves with one
  entry per id, in the order of the ids: entry \<open>i\<close> is the reply of the store for the key
  of id \<open>i\<close>, which is \<^verbatim>\<open>null\<close> (\<open>Inr None\<close>) where no record is stored and the record
  where one is.
\<close>

theorem findRecordsByIds_one_entry_per_id:
  "findRecordsByIds db modelName ids =
     Inr (map (\<lambda>i. case db (modelName @ '':'' @ i) of
                      None \<Rightarrow> Inr None
                    | Some (RHash h) \<Rightarrow> Inr (Some h)
                    | Some other \<Rightarrow> Inl ReplyError) ids)
   \<and> (\<exists>rs. findRecordsByIds db modelName ids = Inr rs
        \<and> length rs = length ids
        \<and> (\<forall>i < length ids.
              (db (modelName @ '':'' @ ids ! i) = None \<longrightarrow> rs ! i = Inr None)
              \<and> (\<forall>h. db (modelName @ '':'' @ ids ! i) = Some (RHash h) \<longrightarrow> rs ! i = Inr (Some h))))"
  by (simp add: findRecordsByIds_eq hgetallAsync_def)

theorem findRecordsByIds_one_entry_per_id_witness:
  "findRecordsByIds [''post:p1'' \<mapsto> RHash [(''body'', ''hi'')]] ''post'' [''p0'', ''p1'', ''p2'']
     = Inr [Inr None, Inr (Some [(''body'', ''hi'')]), Inr None]"
  using findRecordsByIds_one_entry_per_id
    [of "[''post:p1'' \<mapsto> RHash [(''body'', ''hi'')]]" "''post''" "[''p0'', ''p1'', ''p2'']"]
  by simp

subsection \<open>Accounts by id\<close>

lemma getFeedOwnerById_eq:
  "getFeedOwnerById db ident =
     (case db (''user:'' @ ident) of
        None \<Rightarrow> Inr None
      | Some (RHash attrs) \<Rightarrow>
          Inr (Some (initObject (if map_of attrs ''type'' = Some ''group'' then Group else User)
                       attrs ident []))
      | Some other \<Rightarrow> Inl ReplyError)"
  by (simp add: getFeedOwnerById_def mkKey2 priv_getRecord_def hgetallAsync_def
      split: option.splits rvalue.splits)

text \<open>
  C7. \<^verbatim>\<open>getUserById\<close> and \<^verbatim>\<open>getGroupById\<close> resolve with \<^verbatim>\<open>null\<close> when nothing is stored
  at the account's key. When a record is stored there, the one whose discriminator gives
  the other variant throws `Expected ..., got ...` (a group where a user is expected, a
  user where a group is expected), and the one that matches resolves with the object.
\<close>

theorem account_by_id_variant:
  "(db (''user:'' @ ident) = None \<longrightarrow>
      getUserById db ident = Inr None \<and> getGroupById db ident = Inr None)
   \<and> (db (''user:'' @ ident) = Some (RHash attrs) \<and> map_of attrs ''type'' = Some ''group'' \<longrightarrow>
      getUserById db ident = Inl (Expected User Group)
      \<and> getGroupById db ident = Inr (Some (initObject Group attrs ident [])))
   \<and> (db (''user:'' @ ident) = Some (RHash attrs) \<and> map_of attrs ''type'' \<noteq> Some ''group'' \<longrightarrow>
      getGroupById db ident = Inl (Expected Group User)
      \<and> getUserById db ident = Inr (Some (initObject User attrs ident [])))"
  by (simp add: getUserById_def getGroupById_def getFeedOwnerById_eq initObject_def instanceof_def)

theorem account_by_id_variant_witness:
  "getUserById Map.empty ''u1'' = Inr None
   \<and> getGroupById Map.empty ''u1'' = Inr None
   \<and> getUserById [''user:g1'' \<mapsto> RHash [(''type'', ''group'')]] ''g1'' = Inl (Expected User Group)
   \<and> getGroupById [''user:u1'' \<mapsto> RHash [(''type'', ''user'')]] ''u1'' = Inl (Expected Group User)"
  using account_by_id_variant [of Map.empty "''u1''" "[]"]
    account_by_id_variant
      [of "[''user:g1'' \<mapsto> RHash [(''type'', ''group'')]]" "''g1''" "[(''type'', ''group'')]"]
    account_by_id_variant
      [of "[''user:u1'' \<mapsto> RHash [(''type'', ''user'')]]" "''u1''" "[(''type'', ''user'')]"]
  by simp

subsection \<open>Accounts by a list of ids\<close>

lemma feed_owner_of_Inl: "feed_owner_of r i = Inl e \<Longrightarrow> e = TypeError \<and> r = Inr None"
  by (cases "(r, i)" rule: feed_owner_of.cases) (auto split: if_splits)

lemma feed_owners_absent:
  "\<exists>i \<in> set ids. f i = Inr None \<Longrightarrow> feed_owners (map f ids) ids = Inl TypeError"
proof (induction ids)
  case Nil
  then show ?case by simp
next
  case (Cons a ids)
  show ?case
  proof (cases "feed_owner_of (f a) a")
    case (Inl e)
    then show ?thesis using feed_owner_of_Inl by auto
  next
    case (Inr obj)
    then have "f a \<noteq> Inr None" by auto
    with Cons.prems have "\<exists>i \<in> set ids. f i = Inr None" by auto
    then have "feed_owners (map f ids) ids = Inl TypeError" by (rule Cons.IH)
    with Inr show ?thesis by simp
  qed
qed

text \<open>
  C9. Whenever one of the ids has nothing stored at its account key, the batch read
  still resolves with one entry per id, \<^verbatim>\<open>null\<close> among them, and
  \<^verbatim>\<open>getFeedOwnersByIds\<close> and \<^verbatim>\<open>getUsersByIds\<close> end with the \<^verbatim>\<open>TypeError\<close> of reading
  \<^verbatim>\<open>attrs.type\<close> of that \<^verbatim>\<open>null\<close>; such lists of ids exist.
\<close>

theorem feed_owners_absent_id_throws:
  "i \<in> set ids \<Longrightarrow> db (''user:'' @ i) = None \<Longrightarrow>
     (\<exists>rs. findRecordsByIds db ''user'' ids = Inr rs \<and> length rs = length ids \<and> Inr None \<in> set rs)
     \<and> getFeedOwnersByIds db ids = Inl TypeError
     \<and> getUsersByIds db ids = Inl TypeError"
proof -
  assume i: "i \<in> set ids" and a: "db (''user:'' @ i) = None"
  let ?f = "\<lambda>i. hgetallAsync db (''user'' @ '':'' @ i)"
  have fi: "?f i = Inr None" using a by (simp add: hgetallAsync_def)
  then have "\<exists>i \<in> set ids. ?f i = Inr None" using i by blast
  then have t: "feed_owners (map ?f ids) ids = Inl TypeError" by (rule feed_owners_absent)
  have g: "getFeedOwnersByIds db ids = Inl TypeError"
    unfolding getFeedOwnersByIds_def findRecordsByIds_eq using t by simp
  have "Inr None \<in> set (map ?f ids)" using i fi by force
  then show ?thesis
    using g by (simp add: getUsersByIds_def findRecordsByIds_eq)
qed

theorem feed_owners_absent_id_throws_witness:
  "getFeedOwnersByIds [''user:u1'' \<mapsto> RHash [(''username'', ''alice'')]] [''u1'', ''u2''] = Inl TypeError
   \<and> getUsersByIds [''user:u1'' \<mapsto> RHash [(''username'', ''alice'')]] [''u1'', ''u2''] = Inl TypeError
   \<and> findRecordsByIds [''user:u1'' \<mapsto> RHash [(''username'', ''alice'')]] ''user'' [''u1'', ''u2'']
       = Inr [Inr (Some [(''username'', ''alice'')]), Inr None]"
proof -
  have "''u2'' \<in> set [''u1'', ''u2'']" by simp
  moreover have "[''user:u1'' \<mapsto> RHash [(''username'', ''alice'')]] (''user:'' @ ''u2'') = None"
    by simp
  ultimately show ?thesis
    using feed_owners_absent_id_throws
      [of "''u2''" "[''u1'', ''u2'']" "[''user:u1'' \<mapsto> RHash [(''username'', ''alice'')]]"]
    by (simp add: findRecordsByIds_eq hgetallAsync_def)
qed

subsection \<open>Presence tests\<close>

lemma of_char_digit_char: "d < 10 \<Longrightarrow> of_char (digit_char d) = 48 + d"
  by (simp add: digit_char_def)

lemma digit_val_digit_char: "d < 10 \<Longrightarrow> digit_val (digit_char d) = Some d"
  by (simp add: digit_val_def of_char_digit_char)

lemma digit_char_not_minus: "d < 10 \<Longrightarrow> digit_char d \<noteq> CHR ''-''"
proof
  assume "d < 10" and "digit_char d = CHR ''-''"
  then have "(of_char (CHR ''-'') :: nat) = 48 + d" using of_char_digit_char by metis
  then show False by simp
qed

lemma read_digits_append:
  "read_digits acc (xs @ ys) =
     (case read_digits acc xs of None \<Rightarrow> None | Some m \<Rightarrow> read_digits m ys)"
  by (induction xs arbitrary: acc) (auto split: option.splits)

lemma read_digits_show_nat: "read_digits 0 (show_nat n) = Some n"
proof (induction n rule: show_nat.induct)
  case (1 n)
  show ?case
  proof (cases "n < 10")
    case True
    then show ?thesis
      by (subst show_nat.simps) (simp add: digit_val_digit_char)
  next
    case False
    then have "read_digits 0 (show_nat (n div 10)) = Some (n div 10)" by (rule "1.IH")
    moreover have "n mod 10 < 10" by simp
    ultimately show ?thesis
      using False
      by (subst show_nat.simps) (simp add: read_digits_append digit_val_digit_char)
  qed
qed

lemma show_nat_head: "\<exists>d cs. d < 10 \<and> show_nat n = digit_char d # cs"
proof (induction n rule: show_nat.induct)
  case (1 n)
  show ?case
  proof (cases "n < 10")
    case True
    then show ?thesis by (subst show_nat.simps) auto
  next
    case False
    then obtain d cs where "d < 10" and "show_nat (n div 10) = digit_char d # cs"
      using "1.IH" by blast
    then show ?thesis
      using False by (subst show_nat.simps) auto
  qed
qed

lemma string_to_number_show_int: "string_to_number (show_int n) = Some n"
proof (cases "n < 0")
  case True
  obtain d cs where "show_nat (nat (- n)) = digit_char d # cs"
    using show_nat_head by blast
  then have "show_nat (nat (- n)) \<noteq> []" by simp
  then show ?thesis
    using True by (simp add: string_to_number_def show_int_def read_digits_show_nat)
next
  case False
  obtain d cs where d: "d < 10" and s: "show_nat (nat n) = digit_char d # cs"
    using show_nat_head by blast
  have "read_digits 0 (digit_char d # cs) = Some (nat n)"
    using read_digits_show_nat [of "nat n"] unfolding s .
  then show ?thesis
    using False d s digit_char_not_minus [of d]
    by (simp add: string_to_number_def show_int_def)
qed

lemma show_int_not_empty: "show_int n \<noteq> []"
proof -
  obtain d cs where "show_nat (nat n) = digit_char d # cs"
    using show_nat_head by blast
  then show ?thesis by (simp add: show_int_def)
qed

lemma presence_null:
  "js_and (score_value None) (JBool (js_ge_0 (score_value None))) = JNull"
  by (simp add: js_and_def score_value_def)

lemma presence_text:
  "js_and (score_value (Some (show_int n))) (JBool (js_ge_0 (score_value (Some (show_int n)))))
     = JBool (0 \<le> n)"
  by (simp add: js_and_def score_value_def js_ge_0_def string_to_number_show_int
      show_int_not_empty)

lemma presence_value:
  "(case zscoreAsync db key m of Inl e \<Rightarrow> Inl e
    | Inr score \<Rightarrow> Inr (js_and (score_value score) (JBool (js_ge_0 (score_value score))))) =
     (case db key of
        None \<Rightarrow> Inr JNull
      | Some (RZSet z) \<Rightarrow>
          (case map_of z m of None \<Rightarrow> Inr JNull | Some n \<Rightarrow> Inr (JBool (0 \<le> n)))
      | Some other \<Rightarrow> Inl ReplyError)"
proof (cases "db key")
  case None
  then show ?thesis by (simp add: zscoreAsync_def presence_null)
next
  case (Some v)
  then show ?thesis
  proof (cases v)
    case (RZSet z)
    with Some show ?thesis
      by (cases "map_of z m") (simp_all add: zscoreAsync_def presence_null presence_text)
  qed (simp_all add: zscoreAsync_def)
qed

lemma zscore_present:
  "reports_present (case zscoreAsync db key m of Inl e \<Rightarrow> Inl e
          | Inr score \<Rightarrow> Inr (js_and (score_value score) (JBool (js_ge_0 (score_value score)))))
   \<longleftrightarrow> (\<exists>z n. db key = Some (RZSet z) \<and> map_of z m = Some n \<and> 0 \<le> n)"
  unfolding presence_value
  by (auto simp: reports_present_def split: option.splits rvalue.splits)

lemma zscore_absent:
  "reports_absent (case zscoreAsync db key m of Inl e \<Rightarrow> Inl e
          | Inr score \<Rightarrow> Inr (js_and (score_value score) (JBool (js_ge_0 (score_value score)))))
   \<longleftrightarrow> (db key = None
        \<or> (\<exists>z. db key = Some (RZSet z)
             \<and> (map_of z m = None \<or> (\<exists>n. map_of z m = Some n \<and> n < 0))))"
  unfolding presence_value
  by (auto simp: reports_absent_def split: option.splits rvalue.splits)

text \<open>
  C6, as amended. \<^verbatim>\<open>hasUserLikedPost\<close>, \<^verbatim>\<open>isPostPresentInTimeline\<close> and
  \<^verbatim>\<open>isSubscriptionRequestPresent\<close> report the member as present exactly when a score
  is stored for it and the score is not negative, zero included: the score arrives as a
  string, which is truthy, and the string of zero compares \<^verbatim>\<open>>= 0\<close>. They report it as
  not present exactly when the sorted set has no score for it or the stored score is
  negative.
\<close>

theorem presence_iff_nonnegative_score:
  "(reports_present (hasUserLikedPost db userId postId)
      \<longleftrightarrow> (\<exists>z n. db (''post:'' @ postId @ '':likes'') = Some (RZSet z)
                \<and> map_of z userId = Some n \<and> 0 \<le> n))
   \<and> (reports_absent (hasUserLikedPost db userId postId)
      \<longleftrightarrow> (db (''post:'' @ postId @ '':likes'') = None
           \<or> (\<exists>z. db (''post:'' @ postId @ '':likes'') = Some (RZSet z)
                \<and> (map_of z userId = None \<or> (\<exists>n. map_of z userId = Some n \<and> n < 0)))))
   \<and> (reports_present (isPostPresentInTimeline db timelineId postId)
      \<longleftrightarrow> (\<exists>z n. db (''timeline:'' @ timelineId @ '':posts'') = Some (RZSet z)
                \<and> map_of z postId = Some n \<and> 0 \<le> n))
   \<and> (reports_absent (isPostPresentInTimeline db timelineId postId)
      \<longleftrightarrow> (db (''timeline:'' @ timelineId @ '':posts'') = None
           \<or> (\<exists>z. db (''timeline:'' @ timelineId @ '':posts'') = Some (RZSet z)
                \<and> (map_of z postId = None \<or> (\<exists>n. map_of z postId = Some n \<and> n < 0)))))
   \<and> (reports_present (isSubscriptionRequestPresent db currentUserId followedUserId)
      \<longleftrightarrow> (\<exists>z n. db (''user:'' @ followedUserId @ '':requests'') = Some (RZSet z)
                \<and> map_of z currentUserId = Some n \<and> 0 \<le> n))
   \<and> (reports_absent (isSubscriptionRequestPresent db currentUserId followedUserId)
      \<longleftrightarrow> (db (''user:'' @ followedUserId @ '':requests'') = None
           \<or> (\<exists>z. db (''user:'' @ followedUserId @ '':requests'') = Some (RZSet z)
                \<and> (map_of z currentUserId = None
                     \<or> (\<exists>n. map_of z currentUserId = Some n \<and> n < 0)))))"
proof -
  have k: "hasUserLikedPost db userId postId =
      (case zscoreAsync db (''post:'' @ postId @ '':likes'') userId of Inl e \<Rightarrow> Inl e
          | Inr score \<Rightarrow> Inr (js_and (score_value score) (JBool (js_ge_0 (score_value score)))))"
    by (simp add: hasUserLikedPost_def priv_getSortedSetElementScore_def mkKey3)
  have t: "isPostPresentInTimeline db timelineId postId =
      (case zscoreAsync db (''timeline:'' @ timelineId @ '':posts'') postId of Inl e \<Rightarrow> Inl e
          | Inr score \<Rightarrow> Inr (js_and (score_value score) (JBool (js_ge_0 (score_value score)))))"
    by (simp add: isPostPresentInTimeline_def priv_getSortedSetElementScore_def mkKey3)
  have r: "isSubscriptionRequestPresent db currentUserId followedUserId =
      (case zscoreAsync db (''user:'' @ followedUserId @ '':requests'') currentUserId of
         Inl e \<Rightarrow> Inl e
       | Inr score \<Rightarrow> Inr (js_and (score_value score) (JBool (js_ge_0 (score_value score)))))"
    by (simp add: isSubscriptionRequestPresent_def priv_getSortedSetElementScore_def mkKey3)
  show ?thesis
    unfolding k t r zscore_present zscore_absent by simp
qed

lemma hasUserLikedPost_value:
  "hasUserLikedPost db userId postId =
     (case db (''post:'' @ postId @ '':likes'') of
        None \<Rightarrow> Inr JNull
      | Some (RZSet z) \<Rightarrow>
          (case map_of z userId of None \<Rightarrow> Inr JNull | Some n \<Rightarrow> Inr (JBool (0 \<le> n)))
      | Some other \<Rightarrow> Inl ReplyError)"
  by (simp add: hasUserLikedPost_def priv_getSortedSetElementScore_def mkKey3 presence_value)

theorem presence_iff_nonnegative_score_witness:
  "reports_present
     (hasUserLikedPost [''post:p1:likes'' \<mapsto> RZSet [(''bob'', 100), (''eve'', 0), (''mal'', - 5)]]
        ''bob'' ''p1'')
   \<and> reports_present
       (hasUserLikedPost [''post:p1:likes'' \<mapsto> RZSet [(''bob'', 100), (''eve'', 0), (''mal'', - 5)]]
          ''eve'' ''p1'')
   \<and> reports_absent
       (hasUserLikedPost [''post:p1:likes'' \<mapsto> RZSet [(''bob'', 100), (''eve'', 0), (''mal'', - 5)]]
          ''mal'' ''p1'')
   \<and> reports_absent
       (hasUserLikedPost [''post:p1:likes'' \<mapsto> RZSet [(''bob'', 100), (''eve'', 0), (''mal'', - 5)]]
          ''zed'' ''p1'')
   \<and> hasUserLikedPost [''post:p1:likes'' \<mapsto> RZSet [(''bob'', 100), (''eve'', 0), (''mal'', - 5)]]
        ''bob'' ''p1'' = Inr (JBool True)
   \<and> hasUserLikedPost [''post:p1:likes'' \<mapsto> RZSet [(''bob'', 100), (''eve'', 0), (''mal'', - 5)]]
        ''mal'' ''p1'' = Inr (JBool False)
   \<and> hasUserLikedPost [''post:p1:likes'' \<mapsto> RZSet [(''bob'', 100), (''eve'', 0), (''mal'', - 5)]]
        ''zed'' ''p1'' = Inr JNull"
  using presence_iff_nonnegative_score
    [of "[''post:p1:likes'' \<mapsto> RZSet [(''bob'', 100), (''eve'', 0), (''mal'', - 5)]]" "''bob''" "''p1''"]
    presence_iff_nonnegative_score
    [of "[''post:p1:likes'' \<mapsto> RZSet [(''bob'', 100), (''eve'', 0), (''mal'', - 5)]]" "''eve''" "''p1''"]
    presence_iff_nonnegative_score
    [of "[''post:p1:likes'' \<mapsto> RZSet [(''bob'', 100), (''eve'', 0), (''mal'', - 5)]]" "''mal''" "''p1''"]
    presence_iff_nonnegative_score
    [of "[''post:p1:likes'' \<mapsto> RZSet [(''bob'', 100), (''eve'', 0), (''mal'', - 5)]]" "''zed''" "''p1''"]
  by (simp add: hasUserLikedPost_value)

text \<open>
  The claim as first stated, that a stored score of zero is reported as not present,
  fails: for a like stored with score 0, \<^verbatim>\<open>hasUserLikedPost\<close> resolves with \<^verbatim>\<open>true\<close>.
\<close>

theorem presence_zero_score_counterexample:
  "hasUserLikedPost [''post:p1:likes'' \<mapsto> RZSet [(''eve'', 0)]] ''eve'' ''p1'' = Inr (JBool True)
   \<and> reports_present (hasUserLikedPost [''post:p1:likes'' \<mapsto> RZSet [(''eve'', 0)]] ''eve'' ''p1'')
   \<and> \<not> reports_absent (hasUserLikedPost [''post:p1:likes'' \<mapsto> RZSet [(''eve'', 0)]] ''eve'' ''p1'')"
  by (simp add: hasUserLikedPost_value reports_present_def reports_absent_def)

subsection \<open>Guarded creation\<close>

lemma createPost_eq:
  "createPost db uuid payload =
     (if db (''post:'' @ uuid) = None
      then (Inr uuid, db(''post:'' @ uuid \<mapsto> RHash (AList.merge [] payload)))
      else (Inl AlreadyExists, db))"
  by (simp add: createPost_def mkKey2 priv_existsRecord_def existsAsync_def
      priv_createRecord_def hmsetAsync_def)

lemma createComment_eq:
  "createComment db uuid payload =
     (if db (''comment:'' @ uuid) = None
      then (Inr uuid, db(''comment:'' @ uuid \<mapsto> RHash (AList.merge [] payload)))
      else (Inl AlreadyExists, db))"
  by (simp add: createComment_def mkKey2 priv_existsRecord_def existsAsync_def
      priv_createRecord_def hmsetAsync_def)

lemma createAttachment_eq:
  "createAttachment db uuid payload =
     (if db (''attachment:'' @ uuid) = None
      then (Inr uuid, db(''attachment:'' @ uuid \<mapsto> RHash (AList.merge [] payload)))
      else (Inl AlreadyExists, db))"
  by (simp add: createAttachment_def mkKey2 priv_existsRecord_def existsAsync_def
      priv_createRecord_def hmsetAsync_def)

lemma createUser_conflict:
  "db (''user:'' @ uuid) \<noteq> None \<Longrightarrow> createUser db uuid payload = (Inl AlreadyExists, db)"
  by (auto simp: createUser_def mkKey2 priv_existsRecord_def existsAsync_def)

lemma createUser_fresh:
  assumes "db (''user:'' @ uuid) = None"
  shows "createUser db uuid payload =
     (Inr uuid,
      (let db2 = db(''username:'' @ user_username payload @ '':uid'' \<mapsto> RString uuid,
                    ''user:'' @ uuid \<mapsto> RHash (AList.merge [] (user_object payload)))
       in case user_email payload of
            None \<Rightarrow> db2
          | Some address \<Rightarrow>
              if address = [] then db2
              else db2(''email:'' @ toLowerCase address @ '':uid'' \<mapsto> RString uuid)))"
  using assms
  by (simp add: createUser_def mkKey2 mkKey3 priv_existsRecord_def existsAsync_def
      priv_createUserUsernameIndex_def createUserEmailIndex_def priv_setIndexValue_def setAsync_def
      priv_createRecord_def hmsetAsync_def priv_normalizeUserEmail_def Let_def
      split: option.splits)

lemma priv_createUserTimeline_eq:
  "priv_createUserTimeline db userId timelineName timelineId =
     (case db (''user:'' @ userId @ '':timelines'') of
        None \<Rightarrow>
          (Promise (Inr ()),
           db(''user:'' @ userId @ '':timelines'' \<mapsto> RHash [(timelineName, timelineId)]))
      | Some (RHash h) \<Rightarrow>
          (Promise (Inr ()),
           db(''user:'' @ userId @ '':timelines'' \<mapsto>
                RHash (AList.update timelineName timelineId h)))
      | Some other \<Rightarrow> (Promise (Inl ReplyError), db))"
  by (simp add: priv_createUserTimeline_def mkKey3 priv_createRecord_def hmsetAsync_def merge_single
      split: option.splits rvalue.splits)

lemma priv_createTimeline_eq:
  "priv_createTimeline db timelineId userId payload =
     (if db (''timeline:'' @ timelineId) \<noteq> None then (Inl AlreadyExists, db)
      else (case db (''user:'' @ userId @ '':timelines'') of
              None \<Rightarrow>
                (Inr timelineId,
                 db(''user:'' @ userId @ '':timelines'' \<mapsto>
                      RHash [(timeline_name payload, timelineId)],
                    ''timeline:'' @ timelineId \<mapsto>
                      RHash (AList.merge [] (timeline_object payload))))
            | Some (RHash h) \<Rightarrow>
                (Inr timelineId,
                 db(''user:'' @ userId @ '':timelines'' \<mapsto>
                      RHash (AList.update (timeline_name payload) timelineId h),
                    ''timeline:'' @ timelineId \<mapsto>
                      RHash (AList.merge [] (timeline_object payload))))
            | Some other \<Rightarrow>
                (Inl ReplyError,
                 db(''timeline:'' @ timelineId \<mapsto>
                      RHash (AList.merge [] (timeline_object payload))))))"
  by (auto simp: priv_createTimeline_def mkKey2 priv_existsRecord_def existsAsync_def
      priv_createUserTimeline_eq priv_createRecord_def hmsetAsync_def Let_def
      split: option.splits rvalue.splits)

lemma priv_createTimeline_conflict:
  "db (''timeline:'' @ timelineId) \<noteq> None \<Longrightarrow>
     priv_createTimeline db timelineId userId payload = (Inl AlreadyExists, db)"
  by (simp add: priv_createTimeline_eq)

lemma priv_createTimeline_written:
  "db (''timeline:'' @ timelineId) = None \<Longrightarrow>
   hash_at db (''user:'' @ userId @ '':timelines'') = Some h \<Longrightarrow>
   priv_createTimeline db timelineId userId payload =
     (Inr timelineId,
      db(''user:'' @ userId @ '':timelines'' \<mapsto>
           RHash (AList.update (timeline_name payload) timelineId h),
         ''timeline:'' @ timelineId \<mapsto> RHash (AList.merge [] (timeline_object payload))))"
  by (auto simp: priv_createTimeline_eq hash_at_def split: option.splits rvalue.splits)

lemma createTimeline_eq:
  "createTimeline db uuid payload = priv_createTimeline db uuid (timeline_userId payload) payload"
  by (simp add: createTimeline_def)

lemma createUserDiscussionsTimeline_eq:
  "createUserDiscussionsTimeline db userId payload = priv_createTimeline db userId userId payload"
  by (simp add: createUserDiscussionsTimeline_def getUserDiscussionsTimelineId_def)

lemma hmset_not_conflict: "fst (hmsetAsync db key payload) \<noteq> Inl AlreadyExists"
  by (simp add: hmsetAsync_def split: option.splits rvalue.splits)

text \<open>
  C3. Every guarded creation (\<^verbatim>\<open>createUser\<close>, \<^verbatim>\<open>createPost\<close>, \<^verbatim>\<open>createComment\<close>,
  \<^verbatim>\<open>createAttachment\<close>, \<^verbatim>\<open>createTimeline\<close>, \<^verbatim>\<open>createUserDiscussionsTimeline\<close>): when
  the store holds something at the key of the chosen id, it throws "Already exists" and
  leaves the store as it was. Otherwise it resolves with the id, and the store differs
  by exactly the writes of the creation: the primary record with the fields of the
  payload, and the index entries (username, and email when one is given, for a user; the
  name-to-id field merged into the owner's timelines record, for a timeline, that key
  holding a record or nothing).
\<close>

theorem guarded_create_conflict_or_write:
  "(db (''user:'' @ uuid) \<noteq> None \<longrightarrow> createUser db uuid user = (Inl AlreadyExists, db))
   \<and> (db (''user:'' @ uuid) = None \<longrightarrow>
        createUser db uuid user =
          (Inr uuid,
           (let db2 = db(''username:'' @ user_username user @ '':uid'' \<mapsto> RString uuid,
                         ''user:'' @ uuid \<mapsto> RHash (AList.merge [] (user_object user)))
            in case user_email user of
                 None \<Rightarrow> db2
               | Some address \<Rightarrow>
                   if address = [] then db2
                   else db2(''email:'' @ toLowerCase address @ '':uid'' \<mapsto> RString uuid))))
   \<and> (db (''post:'' @ uuid) \<noteq> None \<longrightarrow> createPost db uuid payload = (Inl AlreadyExists, db))
   \<and> (db (''post:'' @ uuid) = None \<longrightarrow>
        createPost db uuid payload =
          (Inr uuid, db(''post:'' @ uuid \<mapsto> RHash (AList.merge [] payload))))
   \<and> (db (''comment:'' @ uuid) \<noteq> None \<longrightarrow> createComment db uuid payload = (Inl AlreadyExists, db))
   \<and> (db (''comment:'' @ uuid) = None \<longrightarrow>
        createComment db uuid payload =
          (Inr uuid, db(''comment:'' @ uuid \<mapsto> RHash (AList.merge [] payload))))
   \<and> (db (''attachment:'' @ uuid) \<noteq> None \<longrightarrow> createAttachment db uuid payload = (Inl AlreadyExists, db))
   \<and> (db (''attachment:'' @ uuid) = None \<longrightarrow>
        createAttachment db uuid payload =
          (Inr uuid, db(''attachment:'' @ uuid \<mapsto> RHash (AList.merge [] payload))))
   \<and> (db (''timeline:'' @ uuid) \<noteq> None \<longrightarrow> createTimeline db uuid timeline = (Inl AlreadyExists, db))
   \<and> (db (''timeline:'' @ uuid) = None
        \<and> hash_at db (''user:'' @ timeline_userId timeline @ '':timelines'') = Some h \<longrightarrow>
        createTimeline db uuid timeline =
          (Inr uuid,
           db(''user:'' @ timeline_userId timeline @ '':timelines'' \<mapsto>
                RHash (AList.update (timeline_name timeline) uuid h),
              ''timeline:'' @ uuid \<mapsto> RHash (AList.merge [] (timeline_object timeline)))))
   \<and> (db (''timeline:'' @ userId) \<noteq> None \<longrightarrow>
        createUserDiscussionsTimeline db userId timeline = (Inl AlreadyExists, db))
   \<and> (db (''timeline:'' @ userId) = None
        \<and> hash_at db (''user:'' @ userId @ '':timelines'') = Some h' \<longrightarrow>
        createUserDiscussionsTimeline db userId timeline =
          (Inr userId,
           db(''user:'' @ userId @ '':timelines'' \<mapsto> RHash (AList.update (timeline_name timeline) userId h'),
              ''timeline:'' @ userId \<mapsto> RHash (AList.merge [] (timeline_object timeline)))))
   \<and> map_of (AList.merge [] payload) = map_of payload"
proof -
  have u1: "db (''user:'' @ uuid) \<noteq> None \<longrightarrow> createUser db uuid user = (Inl AlreadyExists, db)"
    using createUser_conflict by blast
  have u2: "db (''user:'' @ uuid) = None \<longrightarrow>
        createUser db uuid user =
          (Inr uuid,
           (let db2 = db(''username:'' @ user_username user @ '':uid'' \<mapsto> RString uuid,
                         ''user:'' @ uuid \<mapsto> RHash (AList.merge [] (user_object user)))
            in case user_email user of
                 None \<Rightarrow> db2
               | Some address \<Rightarrow>
                   if address = [] then db2
                   else db2(''email:'' @ toLowerCase address @ '':uid'' \<mapsto> RString uuid)))"
    using createUser_fresh by blast
  have p: "(db (''post:'' @ uuid) \<noteq> None \<longrightarrow> createPost db uuid payload = (Inl AlreadyExists, db))
   \<and> (db (''post:'' @ uuid) = None \<longrightarrow>
        createPost db uuid payload =
          (Inr uuid, db(''post:'' @ uuid \<mapsto> RHash (AList.merge [] payload))))"
    by (simp add: createPost_eq)
  have c: "(db (''comment:'' @ uuid) \<noteq> None \<longrightarrow> createComment db uuid payload = (Inl AlreadyExists, db))
   \<and> (db (''comment:'' @ uuid) = None \<longrightarrow>
        createComment db uuid payload =
          (Inr uuid, db(''comment:'' @ uuid \<mapsto> RHash (AList.merge [] payload))))"
    by (simp add: createComment_eq)
  have a: "(db (''attachment:'' @ uuid) \<noteq> None \<longrightarrow> createAttachment db uuid payload = (Inl AlreadyExists, db))
   \<and> (db (''attachment:'' @ uuid) = None \<longrightarrow>
        createAttachment db uuid payload =
          (Inr uuid, db(''attachment:'' @ uuid \<mapsto> RHash (AList.merge [] payload))))"
    by (simp add: createAttachment_eq)
  have t1: "db (''timeline:'' @ uuid) \<noteq> None \<longrightarrow> createTimeline db uuid timeline = (Inl AlreadyExists, db)"
    unfolding createTimeline_eq using priv_createTimeline_conflict by blast
  have t2: "db (''timeline:'' @ uuid) = None
        \<and> hash_at db (''user:'' @ timeline_userId timeline @ '':timelines'') = Some h \<longrightarrow>
        createTimeline db uuid timeline =
          (Inr uuid,
           db(''user:'' @ timeline_userId timeline @ '':timelines'' \<mapsto>
                RHash (AList.update (timeline_name timeline) uuid h),
              ''timeline:'' @ uuid \<mapsto> RHash (AList.merge [] (timeline_object timeline))))"
    unfolding createTimeline_eq using priv_createTimeline_written by blast
  have d1: "db (''timeline:'' @ userId) \<noteq> None \<longrightarrow>
        createUserDiscussionsTimeline db userId timeline = (Inl AlreadyExists, db)"
    unfolding createUserDiscussionsTimeline_eq using priv_createTimeline_conflict by blast
  have d2: "db (''timeline:'' @ userId) = None
        \<and> hash_at db (''user:'' @ userId @ '':timelines'') = Some h' \<longrightarrow>
        createUserDiscussionsTimeline db userId timeline =
          (Inr userId,
           db(''user:'' @ userId @ '':timelines'' \<mapsto> RHash (AList.update (timeline_name timeline) userId h'),
              ''timeline:'' @ userId \<mapsto> RHash (AList.merge [] (timeline_object timeline))))"
    unfolding createUserDiscussionsTimeline_eq using priv_createTimeline_written by blast
  have m: "map_of (AList.merge [] payload) = map_of payload"
    by (simp add: merge_conv')
  from u1 u2 p c a t1 t2 d1 d2 m show ?thesis by (intro conjI) blast+
qed

lemma lower_alice: "toLowerCase ''Alice@Example.org'' = ''alice@example.org''"
  by code_simp

theorem guarded_create_conflict_or_write_witness:
  "createUser Map.empty ''id1''
      \<lparr>user_username = ''alice'', user_email = Some ''Alice@Example.org'', user_attrs = []\<rparr>
    = (Inr ''id1'',
       [''username:alice:uid'' \<mapsto> RString ''id1'',
        ''user:id1'' \<mapsto> RHash [(''email'', ''Alice@Example.org''), (''username'', ''alice'')],
        ''email:alice@example.org:uid'' \<mapsto> RString ''id1''])
   \<and> createPost Map.empty ''id1'' [(''body'', ''new'')]
       = (Inr ''id1'', [''post:id1'' \<mapsto> RHash [(''body'', ''new'')]])
   \<and> createComment Map.empty ''id1'' [(''body'', ''new'')]
       = (Inr ''id1'', [''comment:id1'' \<mapsto> RHash [(''body'', ''new'')]])
   \<and> createAttachment Map.empty ''id1'' [(''body'', ''new'')]
       = (Inr ''id1'', [''attachment:id1'' \<mapsto> RHash [(''body'', ''new'')]])
   \<and> createTimeline Map.empty ''id1''
        \<lparr>timeline_name = ''Posts'', timeline_userId = ''u1'', timeline_attrs = []\<rparr>
       = (Inr ''id1'',
          [''user:u1:timelines'' \<mapsto> RHash [(''Posts'', ''id1'')],
           ''timeline:id1'' \<mapsto> RHash [(''userId'', ''u1''), (''name'', ''Posts'')]])
   \<and> createUserDiscussionsTimeline Map.empty ''u1''
        \<lparr>timeline_name = ''Posts'', timeline_userId = ''u1'', timeline_attrs = []\<rparr>
       = (Inr ''u1'',
          [''user:u1:timelines'' \<mapsto> RHash [(''Posts'', ''u1'')],
           ''timeline:u1'' \<mapsto> RHash [(''userId'', ''u1''), (''name'', ''Posts'')]])
   \<and> createUser
        [''user:id1'' \<mapsto> RHash [], ''post:id1'' \<mapsto> RHash [], ''comment:id1'' \<mapsto> RHash [],
         ''attachment:id1'' \<mapsto> RHash [], ''timeline:id1'' \<mapsto> RHash [], ''timeline:u1'' \<mapsto> RHash []]
        ''id1'' \<lparr>user_username = ''alice'', user_email = Some ''Alice@Example.org'', user_attrs = []\<rparr>
       = (Inl AlreadyExists,
          [''user:id1'' \<mapsto> RHash [], ''post:id1'' \<mapsto> RHash [], ''comment:id1'' \<mapsto> RHash [],
           ''attachment:id1'' \<mapsto> RHash [], ''timeline:id1'' \<mapsto> RHash [], ''timeline:u1'' \<mapsto> RHash []])
   \<and> createPost
        [''user:id1'' \<mapsto> RHash [], ''post:id1'' \<mapsto> RHash [], ''comment:id1'' \<mapsto> RHash [],
         ''attachment:id1'' \<mapsto> RHash [], ''timeline:id1'' \<mapsto> RHash [], ''timeline:u1'' \<mapsto> RHash []]
        ''id1'' [(''body'', ''new'')]
       = (Inl AlreadyExists,
          [''user:id1'' \<mapsto> RHash [], ''post:id1'' \<mapsto> RHash [], ''comment:id1'' \<mapsto> RHash [],
           ''attachment:id1'' \<mapsto> RHash [], ''timeline:id1'' \<mapsto> RHash [], ''timeline:u1'' \<mapsto> RHash []])
   \<and> createComment
        [''user:id1'' \<mapsto> RHash [], ''post:id1'' \<mapsto> RHash [], ''comment:id1'' \<mapsto> RHash [],
         ''attachment:id1'' \<mapsto> RHash [], ''timeline:id1'' \<mapsto> RHash [], ''timeline:u1'' \<mapsto> RHash []]
        ''id1'' [(''body'', ''new'')]
       = (Inl AlreadyExists,
          [''user:id1'' \<mapsto> RHash [], ''post:id1'' \<mapsto> RHash [], ''comment:id1'' \<mapsto> RHash [],
           ''attachment:id1'' \<mapsto> RHash [], ''timeline:id1'' \<mapsto> RHash [], ''timeline:u1'' \<mapsto> RHash []])
   \<and> createAttachment
        [''user:id1'' \<mapsto> RHash [], ''post:id1'' \<mapsto> RHash [], ''comment:id1'' \<mapsto> RHash [],
         ''attachment:id1'' \<mapsto> RHash [], ''timeline:id1'' \<mapsto> RHash [], ''timeline:u1'' \<mapsto> RHash []]
        ''id1'' [(''body'', ''new'')]
       = (Inl AlreadyExists,
          [''user:id1'' \<mapsto> RHash [], ''post:id1'' \<mapsto> RHash [], ''comment:id1'' \<mapsto> RHash [],
           ''attachment:id1'' \<mapsto> RHash [], ''timeline:id1'' \<mapsto> RHash [], ''timeline:u1'' \<mapsto> RHash []])
   \<and> createTimeline
        [''user:id1'' \<mapsto> RHash [], ''post:id1'' \<mapsto> RHash [], ''comment:id1'' \<mapsto> RHash [],
         ''attachment:id1'' \<mapsto> RHash [], ''timeline:id1'' \<mapsto> RHash [], ''timeline:u1'' \<mapsto> RHash []]
        ''id1'' \<lparr>timeline_name = ''Posts'', timeline_userId = ''u1'', timeline_attrs = []\<rparr>
       = (Inl AlreadyExists,
          [''user:id1'' \<mapsto> RHash [], ''post:id1'' \<mapsto> RHash [], ''comment:id1'' \<mapsto> RHash [],
           ''attachment:id1'' \<mapsto> RHash [], ''timeline:id1'' \<mapsto> RHash [], ''timeline:u1'' \<mapsto> RHash []])
   \<and> createUserDiscussionsTimeline
        [''user:id1'' \<mapsto> RHash [], ''post:id1'' \<mapsto> RHash [], ''comment:id1'' \<mapsto> RHash [],
         ''attachment:id1'' \<mapsto> RHash [], ''timeline:id1'' \<mapsto> RHash [], ''timeline:u1'' \<mapsto> RHash []]
        ''u1'' \<lparr>timeline_name = ''Posts'', timeline_userId = ''u1'', timeline_attrs = []\<rparr>
       = (Inl AlreadyExists,
          [''user:id1'' \<mapsto> RHash [], ''post:id1'' \<mapsto> RHash [], ''comment:id1'' \<mapsto> RHash [],
           ''attachment:id1'' \<mapsto> RHash [], ''timeline:id1'' \<mapsto> RHash [], ''timeline:u1'' \<mapsto> RHash []])"
proof -
  let ?db = "[''user:id1'' \<mapsto> RHash [], ''post:id1'' \<mapsto> RHash [], ''comment:id1'' \<mapsto> RHash [],
         ''attachment:id1'' \<mapsto> RHash [], ''timeline:id1'' \<mapsto> RHash [], ''timeline:u1'' \<mapsto> RHash []]"
  let ?user = "\<lparr>user_username = ''alice'', user_email = Some ''Alice@Example.org'', user_attrs = []\<rparr>"
  let ?timeline = "\<lparr>timeline_name = ''Posts'', timeline_userId = ''u1'', timeline_attrs = []\<rparr>"
  have fresh: "hash_at Map.empty (''user:'' @ ''u1'' @ '':timelines'') = Some []"
    by (simp add: hash_at_def)
  note a = guarded_create_conflict_or_write
    [where db = Map.empty and uuid = "''id1''" and user = ?user and payload = "[(''body'', ''new'')]"
       and timeline = ?timeline and userId = "''u1''" and h = "[]" and h' = "[]"]
  note b = guarded_create_conflict_or_write
    [where db = ?db and uuid = "''id1''" and user = ?user and payload = "[(''body'', ''new'')]"
       and timeline = ?timeline and userId = "''u1''"]
  show ?thesis
    using a b fresh
    by (simp add: lower_alice user_object_def timeline_object_def AList.merge_def)
qed

text \<open>
  C10. \<^verbatim>\<open>_createRecord\<close> and \<^verbatim>\<open>_updateRecord\<close> are the same function. On an account
  whose timelines record exists, \<^verbatim>\<open>_createUserTimeline\<close> succeeds and merges the field
  into that record. \<^verbatim>\<open>_createRecord\<close> never yields "Already exists": a guarded creation
  yields it exactly when its existence probe is not 0.
\<close>

theorem create_is_update_merge:
  "priv_createRecord = priv_updateRecord
   \<and> (db (''user:'' @ userId @ '':timelines'') = Some (RHash h) \<longrightarrow>
        priv_createUserTimeline db userId timelineName timelineId =
          (Promise (Inr ()),
           db(''user:'' @ userId @ '':timelines'' \<mapsto> RHash (AList.update timelineName timelineId h)))
        \<and> map_of (AList.update timelineName timelineId h) = (map_of h)(timelineName \<mapsto> timelineId))
   \<and> fst (priv_createRecord db key payload) \<noteq> Inl AlreadyExists
   \<and> (fst (createUser db uuid user) = Inl AlreadyExists \<longleftrightarrow> priv_existsRecord db (''user:'' @ uuid) \<noteq> 0)
   \<and> (fst (createPost db uuid payload) = Inl AlreadyExists \<longleftrightarrow> priv_existsRecord db (''post:'' @ uuid) \<noteq> 0)
   \<and> (fst (createComment db uuid payload) = Inl AlreadyExists \<longleftrightarrow> priv_existsRecord db (''comment:'' @ uuid) \<noteq> 0)
   \<and> (fst (createAttachment db uuid payload) = Inl AlreadyExists
        \<longleftrightarrow> priv_existsRecord db (''attachment:'' @ uuid) \<noteq> 0)
   \<and> (fst (priv_createTimeline db timelineId userId timeline) = Inl AlreadyExists
        \<longleftrightarrow> priv_existsRecord db (''timeline:'' @ timelineId) \<noteq> 0)"
proof -
  have eq: "priv_createRecord = priv_updateRecord"
    by (intro ext) (simp add: priv_createRecord_def priv_updateRecord_def)
  have m: "db (''user:'' @ userId @ '':timelines'') = Some (RHash h) \<longrightarrow>
        priv_createUserTimeline db userId timelineName timelineId =
          (Promise (Inr ()),
           db(''user:'' @ userId @ '':timelines'' \<mapsto> RHash (AList.update timelineName timelineId h)))
        \<and> map_of (AList.update timelineName timelineId h) = (map_of h)(timelineName \<mapsto> timelineId)"
    by (simp add: priv_createUserTimeline_eq update_conv')
  have n: "fst (priv_createRecord db key payload) \<noteq> Inl AlreadyExists"
    by (simp add: priv_createRecord_def hmset_not_conflict)
  have u: "fst (createUser db uuid user) = Inl AlreadyExists \<longleftrightarrow> priv_existsRecord db (''user:'' @ uuid) \<noteq> 0"
    using createUser_conflict [of db uuid user] createUser_fresh [of db uuid user]
    by (cases "db (''user:'' @ uuid)") (simp_all add: priv_existsRecord_def existsAsync_def)
  have p: "fst (createPost db uuid payload) = Inl AlreadyExists \<longleftrightarrow> priv_existsRecord db (''post:'' @ uuid) \<noteq> 0"
    by (simp add: createPost_eq priv_existsRecord_def existsAsync_def)
  have c: "fst (createComment db uuid payload) = Inl AlreadyExists \<longleftrightarrow> priv_existsRecord db (''comment:'' @ uuid) \<noteq> 0"
    by (simp add: createComment_eq priv_existsRecord_def existsAsync_def)
  have a: "fst (createAttachment db uuid payload) = Inl AlreadyExists
        \<longleftrightarrow> priv_existsRecord db (''attachment:'' @ uuid) \<noteq> 0"
    by (simp add: createAttachment_eq priv_existsRecord_def existsAsync_def)
  have t: "fst (priv_createTimeline db timelineId userId timeline) = Inl AlreadyExists
        \<longleftrightarrow> priv_existsRecord db (''timeline:'' @ timelineId) \<noteq> 0"
    by (simp add: priv_createTimeline_eq priv_existsRecord_def existsAsync_def
        split: option.splits rvalue.splits)
  show ?thesis using eq m n u p c a t by blast
qed

theorem create_is_update_merge_witness:
  "priv_createUserTimeline [''user:u1:timelines'' \<mapsto> RHash [(''Posts'', ''t1'')]] ''u1'' ''Likes'' ''t2''
     = (Promise (Inr ()),
        [''user:u1:timelines'' \<mapsto> RHash [(''Posts'', ''t1''), (''Likes'', ''t2'')]])
   \<and> fst (createPost [''post:p1'' \<mapsto> RHash [(''body'', ''x'')]] ''p1'' [(''body'', ''y'')]) = Inl AlreadyExists"
  using create_is_update_merge
    [where db = "[''user:u1:timelines'' \<mapsto> RHash [(''Posts'', ''t1'')]]" and userId = "''u1''"
       and h = "[(''Posts'', ''t1'')]" and timelineName = "''Likes''" and timelineId = "''t2''"]
    create_is_update_merge
    [where db = "[''post:p1'' \<mapsto> RHash [(''body'', ''x'')]]" and uuid = "''p1''"
       and payload = "[(''body'', ''y'')]"]
  by (simp add: priv_existsRecord_def existsAsync_def)

subsection \<open>Merge and intersection\<close>

lemma zsource_zset_at: "zset_at db key = Some z \<Longrightarrow> zsource db key = Inr (AList.clearjunk z)"
  by (auto simp: zset_at_def zsource_def split: option.splits rvalue.splits)

lemma zsources_two:
  "zset_at db k1 = Some a \<Longrightarrow> zset_at db k2 = Some b \<Longrightarrow>
     zsources db [k1, k2] = Inr [AList.clearjunk a, AList.clearjunk b]"
  by (simp add: zsource_zset_at)

lemma zset_at_zstore: "zset_at (snd (zstore db dest z)) dest = Some z"
  by (simp add: zstore_def zset_at_def)

lemma zstore_other: "k \<noteq> dest \<Longrightarrow> snd (zstore db dest z) k = db k"
  by (simp add: zstore_def)

lemma map_of_zunion:
  "map_of (zunion agg a b) m =
     (case map_of a m of
        None \<Rightarrow> map_of b m
      | Some s \<Rightarrow> (case map_of b m of None \<Rightarrow> Some s | Some t \<Rightarrow> Some (aggr agg s t)))"
proof -
  have f: "map_of (filter (\<lambda>(m, t). map_of a m = None) b) m =
      (if map_of a m = None then map_of b m else None)"
    by (induction b) auto
  have g: "map_of (map (\<lambda>(m, s). (m, case map_of b m of None \<Rightarrow> s | Some t \<Rightarrow> aggr agg s t)) xs) m =
      (case map_of xs m of None \<Rightarrow> None
       | Some s \<Rightarrow> Some (case map_of b m of None \<Rightarrow> s | Some t \<Rightarrow> aggr agg s t))" for xs
    by (induction xs) (auto split: option.splits)
  show ?thesis
    unfolding zunion_def map_of_append map_add_def f g
    by (auto split: option.splits)
qed

lemma map_of_zinter:
  "map_of (zinter agg a b) m =
     (case map_of a m of
        None \<Rightarrow> None
      | Some s \<Rightarrow> (case map_of b m of None \<Rightarrow> None | Some t \<Rightarrow> Some (aggr agg s t)))"
  unfolding zinter_def
  by (induction a) (auto split: option.splits)

lemma keys_zinter:
  "map fst (zinter agg a b) = filter (\<lambda>m. map_of b m \<noteq> None) (map fst a)"
  unfolding zinter_def
  by (induction a) (auto split: option.splits)

lemma distinct_zinter: "distinct (map fst a) \<Longrightarrow> distinct (map fst (zinter agg a b))"
  by (simp add: keys_zinter)

text \<open>
  C2. Whatever the destination, when the two source timelines have post registries
  \<open>a\<close> and \<open>b\<close>, \<^verbatim>\<open>createMergedPostsTimeline\<close> succeeds and the destination's registry
  becomes their union: a post of one source only keeps its score, a post of both gets
  the maximum of its two scores, no other post is in it; no other key changes.
\<close>

theorem merged_timeline_union_max:
  assumes "registry db sourceTimelineId1 = Some a"
    and "registry db sourceTimelineId2 = Some b"
  shows "\<exists>n db' c.
      createMergedPostsTimeline db destinationTimelineId sourceTimelineId1 sourceTimelineId2 = (Inr n, db')
      \<and> registry db' destinationTimelineId = Some c
      \<and> (\<forall>m. map_of c m =
            (case (map_of a m, map_of b m) of
               (None, None) \<Rightarrow> None
             | (Some s, None) \<Rightarrow> Some s
             | (None, Some t) \<Rightarrow> Some t
             | (Some s, Some t) \<Rightarrow> Some (max s t)))
      \<and> (\<forall>k. k \<noteq> ''timeline:'' @ destinationTimelineId @ '':posts'' \<longrightarrow> db' k = db k)"
proof -
  let ?d = "''timeline:'' @ destinationTimelineId @ '':posts''"
  let ?k1 = "''timeline:'' @ sourceTimelineId1 @ '':posts''"
  let ?k2 = "''timeline:'' @ sourceTimelineId2 @ '':posts''"
  let ?c = "zunion AGGREGATE_MAX (AList.clearjunk a) (AList.clearjunk b)"
  have s: "zsources db [?k1, ?k2] = Inr [AList.clearjunk a, AList.clearjunk b]"
    using assms unfolding registry_def by (rule zsources_two)
  have e: "createMergedPostsTimeline db destinationTimelineId sourceTimelineId1 sourceTimelineId2
      = zstore db ?d ?c"
    using s by (simp add: createMergedPostsTimeline_def mkKey3 zunionstoreAsync_def)
  have r: "registry (snd (zstore db ?d ?c)) destinationTimelineId = Some ?c"
    unfolding registry_def by (rule zset_at_zstore)
  have m: "map_of ?c m =
            (case (map_of a m, map_of b m) of
               (None, None) \<Rightarrow> None
             | (Some s, None) \<Rightarrow> Some s
             | (None, Some t) \<Rightarrow> Some t
             | (Some s, Some t) \<Rightarrow> Some (max s t))" for m
    by (simp add: map_of_zunion map_of_clearjunk split: option.splits)
  have o: "k \<noteq> ?d \<longrightarrow> snd (zstore db ?d ?c) k = db k" for k
    by (simp add: zstore_other)
  have "createMergedPostsTimeline db destinationTimelineId sourceTimelineId1 sourceTimelineId2
      = (Inr (length ?c), snd (zstore db ?d ?c))"
    unfolding e by (simp add: zstore_def)
  then show ?thesis using r m o by blast
qed

theorem merged_timeline_union_max_witness:
  "\<exists>c. registry (snd (createMergedPostsTimeline
            [''timeline:A:posts'' \<mapsto> RZSet [(''post1'', 10)],
             ''timeline:B:posts'' \<mapsto> RZSet [(''post1'', 20), (''post2'', 5)]] ''D'' ''A'' ''B'')) ''D'' = Some c
        \<and> map_of c ''post1'' = Some 20 \<and> map_of c ''post2'' = Some 5 \<and> map_of c ''post3'' = None"
proof -
  let ?db = "[''timeline:A:posts'' \<mapsto> RZSet [(''post1'', 10)],
             ''timeline:B:posts'' \<mapsto> RZSet [(''post1'', 20), (''post2'', 5)]]"
  have a: "registry ?db ''A'' = Some [(''post1'', 10)]"
    by (simp add: registry_def zset_at_def)
  have b: "registry ?db ''B'' = Some [(''post1'', 20), (''post2'', 5)]"
    by (simp add: registry_def zset_at_def)
  obtain n db' c where
    g: "createMergedPostsTimeline ?db ''D'' ''A'' ''B'' = (Inr n, db')"
    and r: "registry db' ''D'' = Some c"
    and m: "\<And>m. map_of c m =
            (case (map_of [(''post1'', 10::int)] m, map_of [(''post1'', 20::int), (''post2'', 5)] m) of
               (None, None) \<Rightarrow> None
             | (Some s, None) \<Rightarrow> Some s
             | (None, Some t) \<Rightarrow> Some t
             | (Some s, Some t) \<Rightarrow> Some (max s t))"
    using merged_timeline_union_max [OF a b, of "''D''"] by blast
  have "map_of c ''post1'' = Some 20" unfolding m by simp
  moreover have "map_of c ''post2'' = Some 5" unfolding m by simp
  moreover have "map_of c ''post3'' = None" unfolding m by simp
  moreover have "registry (snd (createMergedPostsTimeline ?db ''D'' ''A'' ''B'')) ''D'' = Some c"
    unfolding g using r by simp
  ultimately show ?thesis by blast
qed

lemma rank_range_all: "rank_range xs 0 (- 1) = xs"
  by (simp add: rank_range_def Let_def)

lemma set_by_rank: "set (by_rank z) = dom (map_of z)"
proof -
  have "set (by_rank z) = fst ` set (AList.clearjunk z)"
    by (force simp: by_rank_def)
  then show ?thesis
    by (simp add: dom_clearjunk dom_map_of_conv_image_fst)
qed

lemma distinct_by_rank: "distinct (by_rank z)"
proof -
  let ?xs = "map (\<lambda>(member, score). (score, member)) (AList.clearjunk z)"
  have "map snd ?xs = map fst (AList.clearjunk z)"
    by (simp add: comp_def case_prod_beta)
  then have d: "distinct (map snd ?xs)"
    by (simp only: distinct_clearjunk)
  then have "distinct ?xs \<and> inj_on snd (set ?xs)"
    by (simp only: distinct_map)
  then have "distinct (sort ?xs) \<and> inj_on snd (set (sort ?xs))"
    by (simp only: distinct_sort set_sort)
  then have "distinct (map snd (sort ?xs))"
    by (simp only: distinct_map)
  then show ?thesis by (simp add: by_rank_def)
qed

lemma sorted_by_rank:
  assumes "\<And>m s. map_of z m = Some s \<Longrightarrow> f m = s"
  shows "sorted (map (\<lambda>m. (f m, m)) (by_rank z))"
proof -
  let ?xs = "map (\<lambda>(member, score). (score, member)) (AList.clearjunk z)"
  have p: "(f (snd p), snd p) = p" if "p \<in> set (sort ?xs)" for p
  proof -
    from that obtain m s where ms: "(m, s) \<in> set (AList.clearjunk z)" and pe: "p = (s, m)"
      by auto
    have "map_of (AList.clearjunk z) m = Some s"
      using ms distinct_clearjunk [of z] by simp
    then have "map_of z m = Some s" by (simp add: map_of_clearjunk)
    then have "f m = s" by (rule assms)
    then show ?thesis using pe by simp
  qed
  have "map (\<lambda>m. (f m, m)) (by_rank z) = map (\<lambda>p. (f (snd p), snd p)) (sort ?xs)"
    by (simp add: by_rank_def comp_def)
  also have "\<dots> = map (\<lambda>p. p) (sort ?xs)"
    using p by (intro map_cong) auto
  finally have "map (\<lambda>m. (f m, m)) (by_rank z) = sort ?xs" by simp
  then show ?thesis by simp
qed

lemma intersection_eq:
  assumes "registry db timelineId1 = Some a"
    and "registry db timelineId2 = Some b"
  shows "getTimelinesIntersectionPostIds db uuid timelineId1 timelineId2 =
     (Inr (by_rank (zinter AGGREGATE_MAX (AList.clearjunk b) (AList.clearjunk a))),
      db(''timeline:'' @ timelineId1 @ '':random:'' @ uuid := None))"
proof -
  let ?r = "''timeline:'' @ timelineId1 @ '':random:'' @ uuid"
  let ?k1 = "''timeline:'' @ timelineId1 @ '':posts''"
  let ?k2 = "''timeline:'' @ timelineId2 @ '':posts''"
  let ?c = "zinter AGGREGATE_MAX (AList.clearjunk b) (AList.clearjunk a)"
  have s: "zsources db [?k2, ?k1] = Inr [AList.clearjunk b, AList.clearjunk a]"
    using assms(2) assms(1) unfolding registry_def by (rule zsources_two)
  have i: "priv_getPostsTimelinesIntersection db r timelineId2 timelineId1 = zstore db r ?c" for r
    using s by (simp add: priv_getPostsTimelinesIntersection_def mkKey3 zinterstoreAsync_def)
  have e: "by_rank [] = []" by (simp add: by_rank_def)
  show ?thesis
    by (simp add: getTimelinesIntersectionPostIds_def mkKey4 i zstore_def
        priv_getTimelinesIntersectionPosts_def zrangeAsync_def rank_range_all e
        priv_deleteRecord_def delAsync_def)
qed

text \<open>
  C1. When the two timelines have post registries \<open>a\<close> and \<open>b\<close>,
  \<^verbatim>\<open>getTimelinesIntersectionPostIds\<close> resolves with exactly the post ids of both, each
  once, in ascending rank order (by the aggregated score, then by id); afterwards the
  temporary key does not exist, and no other key has changed.
\<close>

theorem intersection_common_posts:
  assumes "registry db timelineId1 = Some a"
    and "registry db timelineId2 = Some b"
  shows "\<exists>postIds db'.
      getTimelinesIntersectionPostIds db uuid timelineId1 timelineId2 = (Inr postIds, db')
      \<and> set postIds = dom (map_of a) \<inter> dom (map_of b)
      \<and> distinct postIds
      \<and> sorted (map (\<lambda>m. (common_score a b m, m)) postIds)
      \<and> existsAsync db' (''timeline:'' @ timelineId1 @ '':random:'' @ uuid) = 0
      \<and> (\<forall>k. k \<noteq> ''timeline:'' @ timelineId1 @ '':random:'' @ uuid \<longrightarrow> db' k = db k)"
proof -
  let ?c = "zinter AGGREGATE_MAX (AList.clearjunk b) (AList.clearjunk a)"
  let ?r = "''timeline:'' @ timelineId1 @ '':random:'' @ uuid"
  have m: "map_of ?c m =
      (case map_of b m of None \<Rightarrow> None
       | Some s \<Rightarrow> (case map_of a m of None \<Rightarrow> None | Some t \<Rightarrow> Some (max s t)))" for m
    by (auto simp: map_of_zinter map_of_clearjunk split: option.splits)
  have "dom (map_of ?c) = dom (map_of a) \<inter> dom (map_of b)"
    by (auto simp: dom_def m split: option.splits)
  then have st: "set (by_rank ?c) = dom (map_of a) \<inter> dom (map_of b)"
    by (simp add: set_by_rank)
  have "map_of ?c m = Some s \<Longrightarrow> common_score a b m = s" for m s
    by (auto simp: m common_score_def split: option.splits)
  then have so: "sorted (map (\<lambda>m. (common_score a b m, m)) (by_rank ?c))"
    by (rule sorted_by_rank)
  have g: "getTimelinesIntersectionPostIds db uuid timelineId1 timelineId2 = (Inr (by_rank ?c), db(?r := None))"
    using assms by (rule intersection_eq)
  have x: "existsAsync (db(?r := None)) ?r = 0" by (simp add: existsAsync_def)
  have o: "\<forall>k. k \<noteq> ?r \<longrightarrow> (db(?r := None)) k = db k" by simp
  show ?thesis
    using g st distinct_by_rank [of ?c] so x o by blast
qed

theorem intersection_common_posts_witness:
  "fst (getTimelinesIntersectionPostIds
      [''timeline:A:posts'' \<mapsto> RZSet [(''p1'', 10), (''p2'', 40), (''p3'', 30)],
       ''timeline:B:posts'' \<mapsto> RZSet [(''p2'', 25), (''p3'', 5), (''p4'', 1)]]
      ''f81d4fae'' ''A'' ''B'') = Inr [''p3'', ''p2'']
   \<and> existsAsync (snd (getTimelinesIntersectionPostIds
      [''timeline:A:posts'' \<mapsto> RZSet [(''p1'', 10), (''p2'', 40), (''p3'', 30)],
       ''timeline:B:posts'' \<mapsto> RZSet [(''p2'', 25), (''p3'', 5), (''p4'', 1)]]
      ''f81d4fae'' ''A'' ''B'')) ''timeline:A:random:f81d4fae'' = 0"
proof -
  let ?db = "[''timeline:A:posts'' \<mapsto> RZSet [(''p1'', 10), (''p2'', 40), (''p3'', 30)],
       ''timeline:B:posts'' \<mapsto> RZSet [(''p2'', 25), (''p3'', 5), (''p4'', 1)]]"
  have a: "registry ?db ''A'' = Some [(''p1'', 10), (''p2'', 40), (''p3'', 30)]"
    by (simp add: registry_def zset_at_def)
  have b: "registry ?db ''B'' = Some [(''p2'', 25), (''p3'', 5), (''p4'', 1)]"
    by (simp add: registry_def zset_at_def)
  obtain postIds db' where
    g: "getTimelinesIntersectionPostIds ?db ''f81d4fae'' ''A'' ''B'' = (Inr postIds, db')"
    and x: "existsAsync db' (''timeline:'' @ ''A'' @ '':random:'' @ ''f81d4fae'') = 0"
    using intersection_common_posts [OF a b, of "''f81d4fae''"] by blast
  have e: "fst (getTimelinesIntersectionPostIds ?db ''f81d4fae'' ''A'' ''B'') = Inr [''p3'', ''p2'']"
    by (simp add: getTimelinesIntersectionPostIds_def mkKey4 mkKey3
      priv_getPostsTimelinesIntersection_def zinterstoreAsync_def zsource_def zstore_def
      zinter_def priv_getTimelinesIntersectionPosts_def zrangeAsync_def rank_range_all by_rank_def
      priv_deleteRecord_def delAsync_def existsAsync_def)
  have "existsAsync (snd (getTimelinesIntersectionPostIds ?db ''f81d4fae'' ''A'' ''B''))
      ''timeline:A:random:f81d4fae'' = 0"
    using x unfolding g by simp
  with e show ?thesis by (rule conjI)
qed

subsection \<open>The username index\<close>

text \<open>
  \<^verbatim>\<open>createUser\<close> stores the index entry under the username as the payload gives it, and
  \<^verbatim>\<open>getFeedOwnerByUsername\<close> lower-cases its argument: a name resolves to the new account
  when its lower-cased form is the username of the payload.
\<close>

lemma username_lookup_after_create:
  assumes "db (''user:'' @ uuid) = None"
    and "toLowerCase v = user_username payload"
  shows "getFeedOwnerByUsername (snd (createUser db uuid payload)) v =
      Inr (Some (initObject
        (if map_of (user_object payload) ''type'' = Some ''group'' then Group else User)
        (AList.merge [] (user_object payload)) uuid []))"
proof -
  let ?db' = "snd (createUser db uuid payload)"
  have i: "?db' (''username:'' @ user_username payload @ '':uid'') = Some (RString uuid)"
    using assms(1) by (simp add: createUser_fresh Let_def split: option.splits)
  have r: "?db' (''user:'' @ uuid) = Some (RHash (AList.merge [] (user_object payload)))"
    using assms(1) by (simp add: createUser_fresh Let_def split: option.splits)
  have "getUserIdByUsername ?db' (toLowerCase v) = Inr (Some uuid)"
    unfolding assms(2) using i
    by (simp add: getUserIdByUsername_def mkKey3 priv_getIndexValue_def getAsync_def)
  then show ?thesis
    using r by (simp add: getFeedOwnerByUsername_def getFeedOwnerById_eq merge_conv')
qed

text \<open>
  C5. The username index of an account created as 'Alice' is stored under 'Alice', not
  under the lower-cased 'alice'; \<^verbatim>\<open>getFeedOwnerByUsername\<close> lower-cases its argument, so
  neither 'Alice' nor 'alice' resolves to the account, which \<^verbatim>\<open>getFeedOwnerById\<close> finds.
\<close>

theorem username_index_not_normalized:
  "createUser Map.empty ''id1'' \<lparr>user_username = ''Alice'', user_email = None, user_attrs = []\<rparr>
     = (Inr ''id1'',
        [''username:Alice:uid'' \<mapsto> RString ''id1'', ''user:id1'' \<mapsto> RHash [(''username'', ''Alice'')]])
   \<and> getFeedOwnerByUsername
        [''username:Alice:uid'' \<mapsto> RString ''id1'', ''user:id1'' \<mapsto> RHash [(''username'', ''Alice'')]]
        ''Alice'' = Inr None
   \<and> getFeedOwnerByUsername
        [''username:Alice:uid'' \<mapsto> RString ''id1'', ''user:id1'' \<mapsto> RHash [(''username'', ''Alice'')]]
        ''alice'' = Inr None
   \<and> getFeedOwnerById
        [''username:Alice:uid'' \<mapsto> RString ''id1'', ''user:id1'' \<mapsto> RHash [(''username'', ''Alice'')]]
        ''id1'' = Inr (Some (Instance User [(''username'', ''Alice''), (''id'', ''id1'')]))"
proof -
  have l1: "toLowerCase ''Alice'' = ''alice''" by code_simp
  have l2: "toLowerCase ''alice'' = ''alice''" by code_simp
  show ?thesis
    by (simp add: createUser_fresh user_object_def AList.merge_def getFeedOwnerByUsername_def
        getUserIdByUsername_def mkKey3 priv_getIndexValue_def getAsync_def l1 l2
        getFeedOwnerById_eq initObject_def)
qed

end
